theory Spec2Isabelle
  imports Complex_Main
begin

section \<open>Numbers and distances\<close>

text \<open>
  JavaScript numbers are modelled as real numbers: the arithmetic below is the arithmetic of
  the source with rounding left out. A latitude/longitude pair is a \<open>point\<close>.
\<close>

record point =
  lat :: real
  lng :: real

text \<open>\<open>Math.atan2(y, x)\<close>, by the quadrant of \<open>(x, y)\<close>.\<close>

definition Math_atan2 :: "real \<Rightarrow> real \<Rightarrow> real" where
  "Math_atan2 y x =
     (if 0 < x then arctan (y / x)
      else if x < 0 then (if 0 \<le> y then arctan (y / x) + pi else arctan (y / x) - pi)
      else if 0 < y then pi / 2
      else if y < 0 then - (pi / 2)
      else 0)"

text \<open>\<open>Math.round(x)\<close>: the nearest integer, halves rounded up.\<close>

definition Math_round :: "real \<Rightarrow> int" where
  "Math_round x = \<lfloor>x + 1 / 2\<rfloor>"

text \<open>
  \<open>calculateDistance\<close>, the haversine formula. The routes import it from the data module,
  which is not among the sources; the Flight model defines the helper of this name given
  here, and the map client has the same formula as \<open>getDistanceMeters\<close>. The routes call it
  through \<open>getDistance\<close>. For latitudes between -90 and 90 the quantity \<open>a\<close> lies
  between 0 and 1.
\<close>

definition calculateDistance :: "real \<Rightarrow> real \<Rightarrow> real \<Rightarrow> real \<Rightarrow> real" where
  "calculateDistance lat1 lng1 lat2 lng2 =
     (let R = 6371000;
          phi1 = lat1 * pi / 180;
          phi2 = lat2 * pi / 180;
          dphi = (lat2 - lat1) * pi / 180;
          dlam = (lng2 - lng1) * pi / 180;
          a = sin (dphi / 2) * sin (dphi / 2) +
              cos phi1 * cos phi2 * sin (dlam / 2) * sin (dlam / 2);
          c = 2 * Math_atan2 (sqrt a) (sqrt (1 - a))
      in R * c)"

definition getDistance :: "real \<Rightarrow> real \<Rightarrow> real \<Rightarrow> real \<Rightarrow> real" where
  "getDistance lat1 lng1 lat2 lng2 = calculateDistance lat1 lng1 lat2 lng2"


section \<open>The map client: restricted areas, border polygon, trajectories\<close>

record airport =
  airport_name :: string
  airport_position :: point
  restrictedRadius :: real
  cautionRadius :: real






text \<open>
  \<open>state.kosovoBorderCoords\<close> is \<open>null\<close> (\<open>None\<close>) or an array of \<open>[lat, lng]\<close> pairs.
  \<open>crossing\<close> is the condition of the \<open>if\<close> in the ray-casting loop; \<open>&&\<close> evaluates the
  division only when the two latitudes lie on different sides, so \<open>yj - yi\<close> is not zero there.
\<close>

type_synonym coord = "real \<times> real"

definition crossing :: "real \<Rightarrow> real \<Rightarrow> coord \<Rightarrow> coord \<Rightarrow> bool" where
  "crossing plat plng ci cj =
     (let xi = snd ci; yi = fst ci; xj = snd cj; yj = fst cj
      in ((yi > plat) \<noteq> (yj > plat)) \<and> plng < (xj - xi) * (plat - yi) / (yj - yi) + xi)"

text \<open>\<open>for (let i = 0, j = n - 1; i < n; j = i++)\<close>, with the flag \<open>inside\<close> threaded through.\<close>

function rayLoop :: "coord list \<Rightarrow> real \<Rightarrow> real \<Rightarrow> nat \<Rightarrow> nat \<Rightarrow> bool \<Rightarrow> bool" where
  "rayLoop coords plat plng i j inside =
     (if i < length coords
      then rayLoop coords plat plng (Suc i) i
             (if crossing plat plng (coords ! i) (coords ! j) then \<not> inside else inside)
      else inside)"
  by pat_completeness auto
termination
  by (relation "measure (\<lambda>(coords, plat, plng, i, j, inside). length coords - i)") auto

declare rayLoop.simps [simp del]

definition isPointInKosovo :: "coord list option \<Rightarrow> real \<Rightarrow> real \<Rightarrow> bool" where
  "isPointInKosovo kosovoBorderCoords plat plng =
     (case kosovoBorderCoords of
        None \<Rightarrow> plat \<ge> 41.85 \<and> plat \<le> 43.27 \<and> plng \<ge> 19.91 \<and> plng \<le> 21.80
      | Some coords \<Rightarrow>
          if length coords = 0 then plat \<ge> 41.85 \<and> plat \<le> 43.27 \<and> plng \<ge> 19.91 \<and> plng \<le> 21.80
          else rayLoop coords plat plng 0 (length coords - 1) False)"







text \<open>The directed edges \<open>(coords[i], coords[j])\<close> the ray-casting loop visits, in its order.\<close>

definition ringEdges :: "coord list \<Rightarrow> (coord \<times> coord) list" where
  "ringEdges cs = zip cs (last cs # cs)"

section \<open>The flight routes: flights and their geometry\<close>

text \<open>
  A waypoint is a point with an altitude. A request body (\<open>flightData\<close>) carries waypoints
  and/or an operation area, the schedule and the maximum altitude; a property that is absent
  is \<open>None\<close>. \<open>scheduledStart\<close> and \<open>scheduledEnd\<close> hold the millisecond value of
  \<open>new Date(...)\<close> of the property, \<open>None\<close> for an invalid date, whose comparisons are all
  false. An operation area of type \<open>circle\<close> has a centre and a radius; one of any other
  type may have a centre and may have bounds.
\<close>

record waypoint = point +
  altitude :: real

record bounds =
  north :: real
  south :: real
  east :: real
  west :: real

datatype operationArea =
    Circle point real
  | Rectangle "point option" "bounds option"

text \<open>The status values of the Flight schema.\<close>

datatype status = Pending | Approved | Rejected | Active | Completed | Cancelled | Expired

record flightData =
  waypoints :: "waypoint list option"
  operationArea :: "operationArea option"
  scheduledStart :: "int option"
  scheduledEnd :: "int option"
  maxAltitude :: "real option"
  droneMaxSpeed :: "real option"

text \<open>\<open>a < b\<close> and \<open>a <= b\<close> on dates.\<close>

definition dateLess :: "int option \<Rightarrow> int option \<Rightarrow> bool" where
  "dateLess a b = (case a of None \<Rightarrow> False
                   | Some x \<Rightarrow> (case b of None \<Rightarrow> False | Some y \<Rightarrow> x < y))"

definition dateLessEq :: "int option \<Rightarrow> int option \<Rightarrow> bool" where
  "dateLessEq a b = (case a of None \<Rightarrow> False
                     | Some x \<Rightarrow> (case b of None \<Rightarrow> False | Some y \<Rightarrow> x \<le> y))"

text \<open>\<open>x || d\<close> on an optional number: an absent property and the number 0 both give \<open>d\<close>.\<close>

definition orDefault :: "real option \<Rightarrow> real \<Rightarrow> real" where
  "orDefault x d = (case x of None \<Rightarrow> d | Some v \<Rightarrow> if v = 0 then d else v)"

text \<open>The inner loop of \<open>generatePathSamples\<close>: \<open>for (let j = 1; j <= numSamples; j++)\<close>.\<close>

function interiorSamples :: "waypoint \<Rightarrow> waypoint \<Rightarrow> nat \<Rightarrow> nat \<Rightarrow> point list" where
  "interiorSamples wp1 wp2 numSamples j =
     (if j \<le> numSamples then
        (let t = real j / real (numSamples + 1)
         in \<lparr>lat = lat wp1 + t * (lat wp2 - lat wp1),
             lng = lng wp1 + t * (lng wp2 - lng wp1)\<rparr>
            # interiorSamples wp1 wp2 numSamples (Suc j))
      else [])"
  by pat_completeness auto
termination
  by (relation "measure (\<lambda>(wp1, wp2, numSamples, j). Suc numSamples - j)") auto

declare interiorSamples.simps [simp del]

text \<open>The outer loop, over the pairs of consecutive waypoints.\<close>

fun segmentSamples :: "real \<Rightarrow> waypoint list \<Rightarrow> point list" where
  "segmentSamples sampleDistance (wp1 # wp2 # rest) =
     (let segmentDistance = getDistance (lat wp1) (lng wp1) (lat wp2) (lng wp2);
          numSamples = nat \<lfloor>segmentDistance / sampleDistance\<rfloor>
      in interiorSamples wp1 wp2 numSamples 1 @ [point.truncate wp2]
         @ segmentSamples sampleDistance (wp2 # rest))"
| "segmentSamples sampleDistance [wp1] = []"
| "segmentSamples sampleDistance [] = []"

definition generatePathSamples :: "waypoint list option \<Rightarrow> real \<Rightarrow> point list" where
  "generatePathSamples wps sampleDistance =
     (case wps of
        None \<Rightarrow> []
      | Some [] \<Rightarrow> []
      | Some (wp # rest) \<Rightarrow> point.truncate wp # segmentSamples sampleDistance (wp # rest))"

definition getFlightBounds :: "flightData \<Rightarrow> bounds option" where
  "getFlightBounds fd =
     (let fromWaypoints =
            (case waypoints fd of
               Some (wp # rest) \<Rightarrow>
                 Some \<lparr>north = Max (set (map lat (wp # rest))),
                       south = Min (set (map lat (wp # rest))),
                       east = Max (set (map lng (wp # rest))),
                       west = Min (set (map lng (wp # rest)))\<rparr>
             | _ \<Rightarrow> None)
      in case operationArea fd of
           Some (Circle c r) \<Rightarrow>
             (let radiusDeg = r / 111320
              in Some \<lparr>north = lat c + radiusDeg,
                       south = lat c - radiusDeg,
                       east = lng c + radiusDeg / cos (lat c * pi / 180),
                       west = lng c - radiusDeg / cos (lat c * pi / 180)\<rparr>)
         | Some (Rectangle ctr (Some b)) \<Rightarrow> Some b
         | _ \<Rightarrow> fromWaypoints)"

definition boundsOverlap :: "bounds option \<Rightarrow> bounds option \<Rightarrow> real \<Rightarrow> bool" where
  "boundsOverlap bounds1 bounds2 buffer =
     (case bounds1 of
        None \<Rightarrow> False
      | Some b1 \<Rightarrow>
         (case bounds2 of
            None \<Rightarrow> False
          | Some b2 \<Rightarrow>
              \<not> (east b1 + buffer < west b2 - buffer \<or>
                 west b1 - buffer > east b2 + buffer \<or>
                 north b1 + buffer < south b2 - buffer \<or>
                 south b1 - buffer > north b2 + buffer)))"

definition isPointInArea :: "real \<Rightarrow> real \<Rightarrow> operationArea \<Rightarrow> bool" where
  "isPointInArea plat plng area =
     (case area of
        Circle c r \<Rightarrow> getDistance plat plng (lat c) (lng c) \<le> r
      | Rectangle ctr (Some b) \<Rightarrow>
          plat \<ge> south b \<and> plat \<le> north b \<and> plng \<ge> west b \<and> plng \<le> east b
      | Rectangle ctr None \<Rightarrow> False)"

text \<open>
  The result of \<open>checkSpatialConflict\<close>: \<open>{hasConflict: false}\<close>, or
  \<open>{hasConflict: true, minDistance, type}\<close>.
\<close>

datatype conflict_type = area_overlap | path_enters_area | path_proximity

datatype spatial = NoConflict | Conflict real conflict_type


text \<open>
  The two nested loops that compute \<open>minDistance\<close>, which starts as \<open>Infinity\<close>
  (\<open>None\<close>): every distance is below \<open>Infinity\<close>.
\<close>

fun innerMin :: "point \<Rightarrow> point list \<Rightarrow> real option \<Rightarrow> real option" where
  "innerMin s1 [] minDistance = minDistance"
| "innerMin s1 (s2 # rest) minDistance =
     (let dist = getDistance (lat s1) (lng s1) (lat s2) (lng s2)
      in innerMin s1 rest
           (case minDistance of
              None \<Rightarrow> Some dist
            | Some m \<Rightarrow> if dist < m then Some dist else Some m))"

fun outerMin :: "point list \<Rightarrow> point list \<Rightarrow> real option \<Rightarrow> real option" where
  "outerMin [] samples2 minDistance = minDistance"
| "outerMin (s1 # rest) samples2 minDistance =
     outerMin rest samples2 (innerMin s1 samples2 minDistance)"

definition checkSpatialConflict :: "flightData \<Rightarrow> flightData \<Rightarrow> spatial" where
  "checkSpatialConflict flight1 flight2 =
     (if \<not> boundsOverlap (getFlightBounds flight1) (getFlightBounds flight2) 0.005
      then NoConflict
      else
        (let areaResult =
               (case (operationArea flight1, operationArea flight2) of
                  (Some (Circle c1 r1), Some (Circle c2 r2)) \<Rightarrow>
                    (let dist = getDistance (lat c1) (lng c1) (lat c2) (lng c2)
                     in if dist < r1 + r2 then Some (Conflict dist area_overlap) else None)
                | (Some area1, Some area2) \<Rightarrow> Some (Conflict 0 area_overlap)
                | _ \<Rightarrow> None)
         in case areaResult of
              Some r \<Rightarrow> r
            | None \<Rightarrow>
               (let samples1 = generatePathSamples (waypoints flight1) 50;
                    samples2 = generatePathSamples (waypoints flight2) 50
                in if (case operationArea flight1 of
                         Some area1 \<Rightarrow>
                           list_ex (\<lambda>s. isPointInArea (lat s) (lng s) area1) samples2
                       | None \<Rightarrow> False)
                   then Conflict 0 path_enters_area
                   else if (case operationArea flight2 of
                              Some area2 \<Rightarrow>
                                list_ex (\<lambda>s. isPointInArea (lat s) (lng s) area2) samples1
                            | None \<Rightarrow> False)
                   then Conflict 0 path_enters_area
                   else
                     (case outerMin samples1 samples2 None of
                        Some minDistance \<Rightarrow>
                          if minDistance < 200 then Conflict minDistance path_proximity
                          else NoConflict
                      | None \<Rightarrow> NoConflict))))"

section \<open>The flight routes: conflicts, validation, submission\<close>

text \<open>
  A conflict record pushed by \<open>checkFlightConflicts\<close> and a check pushed by
  \<open>validateFlightRequest\<close>. The display strings (\<open>conflictDetails\<close>, \<open>message\<close>) are not
  modelled; a check is identified by its name, its \<open>passed\<close> flag and its severity.
\<close>

record conflict =
  conflict_flightId :: string
  conflict_flightNumber :: string
  conflictType :: conflict_type
  conflict_minDistance :: int
  conflict_scheduledStart :: "int option"
  conflict_scheduledEnd :: "int option"

datatype check_name =
    border_check | area_border_check | altitude_check | zone_check
  | time_check | daylight_check | traffic_conflict

datatype severity = SevInfo | SevWarning | SevError

record check =
  name :: check_name
  passed :: bool
  severity :: severity
  conflictingFlight :: "conflict option"

record validation =
  isValid :: bool
  checks :: "check list"

text \<open>The current position of a flight in the simulation.\<close>

record position =
  pos_lat :: real
  pos_lng :: real
  pos_altitude :: real
  heading :: real
  speed :: real

text \<open>
  A stored flight: the generated fields, the request body spread into the object
  (\<open>flight_data\<close>), the status and the validation report, and the fields the simulation
  adds. \<open>inMemoryFlights\<close> is a JavaScript \<open>Map\<close>: an association list in insertion order,
  where setting an existing key replaces its value in place.
\<close>

record flight =
  flight_id :: string
  flightNumber :: string
  userId :: string
  flight_data :: flightData
  flight_status :: status
  flight_validation :: "validation option"
  currentPosition :: "position option"
  currentWaypointIndex :: "nat option"

type_synonym registry = "(string \<times> flight) list"

fun mapSet :: "string \<Rightarrow> flight \<Rightarrow> registry \<Rightarrow> registry" where
  "mapSet k v [] = [(k, v)]"
| "mapSet k v ((k', v') # rest) =
     (if k' = k then (k, v) # rest else (k', v') # mapSet k v rest)"

definition mapGet :: "registry \<Rightarrow> string \<Rightarrow> flight option" where
  "mapGet reg k = map_of reg k"

definition mapValues :: "registry \<Rightarrow> flight list" where
  "mapValues reg = map snd reg"

text \<open>
  The two ways \<open>checkFlightConflicts\<close> fetches \<open>existingFlights\<close>: the query sent to the
  database when it is connected, and the filter over the in-memory map otherwise.
\<close>

definition mongoQuery :: "flight list \<Rightarrow> flightData \<Rightarrow> string option \<Rightarrow> flight list" where
  "mongoQuery collection newFlight excludeId =
     filter (\<lambda>f. flight_status f \<in> {Pending, Approved, Active} \<and>
                  dateLess (scheduledStart (flight_data f)) (scheduledEnd newFlight) \<and>
                  dateLess (scheduledStart newFlight) (scheduledEnd (flight_data f)) \<and>
                  (case excludeId of None \<Rightarrow> True | Some e \<Rightarrow> flight_id f \<noteq> e))
            collection"

definition inMemoryFilter :: "registry \<Rightarrow> flightData \<Rightarrow> string option \<Rightarrow> flight list" where
  "inMemoryFilter reg newFlight excludeId =
     filter (\<lambda>f. if flight_status f \<in> {Cancelled, Completed, Rejected} then False
                  else if (case excludeId of None \<Rightarrow> False | Some e \<Rightarrow> flight_id f = e)
                  then False
                  else dateLess (scheduledStart newFlight) (scheduledEnd (flight_data f)) \<and>
                       dateLess (scheduledStart (flight_data f)) (scheduledEnd newFlight))
            (mapValues reg)"

definition existingFlights ::
  "flight list option \<Rightarrow> registry \<Rightarrow> flightData \<Rightarrow> string option \<Rightarrow> flight list" where
  "existingFlights mongo reg newFlight excludeId =
     (case mongo of
        Some collection \<Rightarrow> mongoQuery collection newFlight excludeId
      | None \<Rightarrow> inMemoryFilter reg newFlight excludeId)"

definition altitudeOverlap :: "flightData \<Rightarrow> flightData \<Rightarrow> bool" where
  "altitudeOverlap newFlight flight =
     (\<bar>orDefault (maxAltitude newFlight) 100 - orDefault (maxAltitude flight) 100\<bar> < 30)"

text \<open>The loop over \<open>existingFlights\<close>.\<close>

fun conflictLoop :: "flightData \<Rightarrow> flight list \<Rightarrow> conflict list" where
  "conflictLoop newFlight [] = []"
| "conflictLoop newFlight (f # rest) =
     (if \<not> altitudeOverlap newFlight (flight_data f) then conflictLoop newFlight rest
      else
        (case checkSpatialConflict newFlight (flight_data f) of
           Conflict minDistance t \<Rightarrow>
             \<lparr>conflict_flightId = flight_id f,
              conflict_flightNumber = flightNumber f,
              conflictType = t,
              conflict_minDistance = Math_round minDistance,
              conflict_scheduledStart = scheduledStart (flight_data f),
              conflict_scheduledEnd = scheduledEnd (flight_data f)\<rparr>
             # conflictLoop newFlight rest
         | NoConflict \<Rightarrow> conflictLoop newFlight rest))"

definition checkFlightConflicts ::
  "flight list option \<Rightarrow> registry \<Rightarrow> flightData \<Rightarrow> string option \<Rightarrow> conflict list" where
  "checkFlightConflicts mongo reg newFlight excludeId =
     conflictLoop newFlight (existingFlights mongo reg newFlight excludeId)"

text \<open>
  What \<open>validateFlightRequest\<close> takes from the data module and the clock. The data module
  is not among the sources, so its parts are parameters: the border test
  \<open>isWithinKosovo\<close>, the zone test \<open>checkRestrictedZone\<close> (of each violation it returns,
  only the severity is kept), and the altitude ceiling \<open>KCAA_REGULATIONS.maxAltitudeAGL\<close>.
  \<open>now\<close> is \<open>new Date()\<close> in milliseconds.
\<close>

record environment =
  isWithinKosovo :: "real \<Rightarrow> real \<Rightarrow> bool"
  checkRestrictedZone :: "real \<Rightarrow> real \<Rightarrow> real \<Rightarrow> severity list"
  maxAltitudeAGL :: real
  now :: int

definition mkCheck :: "check_name \<Rightarrow> bool \<Rightarrow> severity \<Rightarrow> check" where
  "mkCheck n p s = \<lparr>name = n, passed = p, severity = s, conflictingFlight = None\<rparr>"

text \<open>
  Each step of \<open>validateFlightRequest\<close> works on the pair of the local variables
  \<open>checks\<close> and \<open>isValid\<close>.
\<close>

type_synonym vstate = "check list \<times> bool"

fun borderLoop :: "environment \<Rightarrow> waypoint list \<Rightarrow> vstate \<Rightarrow> vstate" where
  "borderLoop env [] st = st"
| "borderLoop env (wp # rest) (cs, valid) =
     (if \<not> isWithinKosovo env (lat wp) (lng wp)
      then borderLoop env rest (cs @ [mkCheck border_check False SevError], False)
      else borderLoop env rest (cs, valid))"

definition borderStep :: "environment \<Rightarrow> flightData \<Rightarrow> vstate \<Rightarrow> vstate" where
  "borderStep env fd st =
     (case waypoints fd of
        Some (wp # rest) \<Rightarrow>
          (case borderLoop env (wp # rest) st of
             (cs, valid) \<Rightarrow>
               if \<not> list_ex (\<lambda>c. name c = border_check \<and> \<not> passed c) cs
               then (cs @ [mkCheck border_check True SevInfo], valid)
               else (cs, valid))
      | _ \<Rightarrow> st)"

fun areaCenter :: "operationArea \<Rightarrow> point option" where
  "areaCenter (Circle c r) = Some c"
| "areaCenter (Rectangle ctr b) = ctr"

definition areaStep :: "environment \<Rightarrow> flightData \<Rightarrow> vstate \<Rightarrow> vstate" where
  "areaStep env fd st =
     (case st of (cs, valid) \<Rightarrow>
        (case operationArea fd of
           None \<Rightarrow> (cs, valid)
         | Some area \<Rightarrow>
            (case areaCenter area of
               None \<Rightarrow> (cs, valid)
             | Some c \<Rightarrow>
                 if \<not> isWithinKosovo env (lat c) (lng c)
                 then (cs @ [mkCheck area_border_check False SevError], False)
                 else (cs @ [mkCheck area_border_check True SevInfo], valid))))"

definition altitudeStep :: "environment \<Rightarrow> flightData \<Rightarrow> vstate \<Rightarrow> vstate" where
  "altitudeStep env fd st =
     (case st of (cs, valid) \<Rightarrow>
        if (case maxAltitude fd of None \<Rightarrow> False | Some a \<Rightarrow> a > maxAltitudeAGL env)
        then (cs @ [mkCheck altitude_check False SevError], False)
        else (cs @ [mkCheck altitude_check True SevInfo], valid))"

definition zonePoints :: "flightData \<Rightarrow> point list" where
  "zonePoints fd =
     (case waypoints fd of
        Some wps \<Rightarrow> map point.truncate wps
      | None \<Rightarrow>
         (case operationArea fd of
            None \<Rightarrow> []
          | Some area \<Rightarrow> (case areaCenter area of None \<Rightarrow> [] | Some c \<Rightarrow> [c])))"

definition zoneViolations :: "environment \<Rightarrow> flightData \<Rightarrow> severity list" where
  "zoneViolations env fd =
     concat (map (\<lambda>p. checkRestrictedZone env (lat p) (lng p) (orDefault (maxAltitude fd) 100))
                 (zonePoints fd))"

definition zoneStep :: "environment \<Rightarrow> flightData \<Rightarrow> vstate \<Rightarrow> vstate" where
  "zoneStep env fd st =
     (case st of (cs, valid) \<Rightarrow>
        if length (zoneViolations env fd) > 0 then
          (let errors = filter (\<lambda>v. v = SevError) (zoneViolations env fd);
               warnings = filter (\<lambda>v. v = SevWarning) (zoneViolations env fd);
               st1 = (if length errors > 0
                      then (cs @ map (\<lambda>v. mkCheck zone_check False SevError) errors, False)
                      else (cs, valid))
           in (fst st1 @ map (\<lambda>v. mkCheck zone_check True SevWarning) warnings, snd st1))
        else (cs @ [mkCheck zone_check True SevInfo], valid))"

definition timeStep :: "environment \<Rightarrow> flightData \<Rightarrow> vstate \<Rightarrow> vstate" where
  "timeStep env fd st =
     (case st of (cs, valid) \<Rightarrow>
        if dateLess (scheduledStart fd) (Some (now env))
        then (cs @ [mkCheck time_check False SevError], False)
        else (cs @ [mkCheck time_check True SevInfo], valid))"

text \<open>\<open>getUTCHours()\<close> of a date given in milliseconds.\<close>

definition getUTCHours :: "int \<Rightarrow> int" where
  "getUTCHours ms = (ms div 3600000) mod 24"

definition daylightStep :: "environment \<Rightarrow> flightData \<Rightarrow> vstate \<Rightarrow> vstate" where
  "daylightStep env fd st =
     (case st of (cs, valid) \<Rightarrow>
        if (case scheduledStart fd of
              None \<Rightarrow> False
            | Some ms \<Rightarrow> (let startHour = getUTCHours ms + 1 in startHour < 6 \<or> startHour > 20))
        then (cs @ [mkCheck daylight_check False SevWarning], valid)
        else (cs @ [mkCheck daylight_check True SevInfo], valid))"

definition conflictStep ::
  "flight list option \<Rightarrow> registry \<Rightarrow> flightData \<Rightarrow> vstate \<Rightarrow> vstate" where
  "conflictStep mongo reg fd st =
     (case st of (cs, valid) \<Rightarrow>
        (let conflicts = checkFlightConflicts mongo reg fd None
         in if length conflicts > 0
            then (cs @ map (\<lambda>c. \<lparr>name = traffic_conflict, passed = False,
                                   severity = SevError, conflictingFlight = Some c\<rparr>) conflicts,
                  False)
            else (cs @ [mkCheck traffic_conflict True SevInfo], valid)))"

definition validateFlightRequest ::
  "environment \<Rightarrow> flight list option \<Rightarrow> registry \<Rightarrow> flightData \<Rightarrow> validation" where
  "validateFlightRequest env mongo reg fd =
     (case conflictStep mongo reg fd
             (daylightStep env fd
               (timeStep env fd
                 (zoneStep env fd
                   (altitudeStep env fd
                     (areaStep env fd
                       (borderStep env fd ([], True))))))) of
        (cs, valid) \<Rightarrow> \<lparr>isValid = valid, checks = cs\<rparr>)"

text \<open>
  \<open>POST /\<close> with the database not connected. The request gives the body; \<open>req_id\<close> is the
  \<open>id\<close> the stored object ends up with (\<open>flight_<Date.now()>\<close>, or the body's own \<open>id\<close>
  property, which the spread copies over it), \<open>req_flightNumber\<close> the generated flight number
  and \<open>req_userId\<close> the authenticated user. The status is assigned after the spread.
\<close>

record request =
  req_id :: string
  req_flightNumber :: string
  req_userId :: string
  req_body :: flightData

definition postFlight :: "environment \<Rightarrow> registry \<Rightarrow> request \<Rightarrow> registry \<times> flight" where
  "postFlight env reg req =
     (let validation = validateFlightRequest env None reg (req_body req);
          flight = \<lparr>flight_id = req_id req,
                    flightNumber = req_flightNumber req,
                    userId = req_userId req,
                    flight_data = req_body req,
                    flight_status = (if isValid validation then Pending else Rejected),
                    flight_validation = Some validation,
                    currentPosition = None,
                    currentWaypointIndex = None\<rparr>
      in (mapSet (flight_id flight) flight reg, flight))"


text \<open>
  \<open>PATCH /:id/status\<close> and \<open>DELETE /:id\<close> with the database not connected; \<open>None\<close> is the
  404 answer. The object found under the key is changed in place and stored under its own id.
\<close>

definition patchStatus :: "registry \<Rightarrow> string \<Rightarrow> status \<Rightarrow> registry option" where
  "patchStatus reg k newStatus =
     (case mapGet reg k of
        None \<Rightarrow> None
      | Some flight \<Rightarrow>
          (let flight' = flight\<lparr>flight_status := newStatus\<rparr>
           in Some (mapSet (flight_id flight') flight' (mapSet k flight' reg))))"

definition deleteFlight :: "registry \<Rightarrow> string \<Rightarrow> string \<Rightarrow> registry option" where
  "deleteFlight reg k user =
     (case mapGet reg k of
        None \<Rightarrow> None
      | Some flight \<Rightarrow>
          if userId flight \<noteq> user then None
          else
            (let flight' = flight\<lparr>flight_status := Cancelled\<rparr>
             in Some (mapSet (flight_id flight') flight' (mapSet k flight' reg))))"

section \<open>The simulation tick\<close>

text \<open>
  The first block of the loop body of \<open>POST /tick\<close>, for an active flight with a non-empty
  waypoint list \<open>wps\<close>. The four calls of \<open>Math.random()\<close> are the values \<open>rnd 0\<close> to
  \<open>rnd 3\<close>.
\<close>

definition moveActive :: "(nat \<Rightarrow> real) \<Rightarrow> waypoint list \<Rightarrow> flight \<Rightarrow> flight" where
  "moveActive rnd wps flight =
     (let idx = (case currentWaypointIndex flight of None \<Rightarrow> 0 | Some i \<Rightarrow> i);
          targetWp = wps ! (min idx (length wps - 1));
          curLat = (case currentPosition flight of Some p \<Rightarrow> pos_lat p | None \<Rightarrow> lat (wps ! 0));
          curLng = (case currentPosition flight of Some p \<Rightarrow> pos_lng p | None \<Rightarrow> lng (wps ! 0));
          dLat = (lat targetWp - curLat) * 0.1 + (rnd 0 - 0.5) * 0.0005;
          dLng = (lng targetWp - curLng) * 0.1 + (rnd 1 - 0.5) * 0.0005;
          newPos = \<lparr>pos_lat = curLat + dLat,
                    pos_lng = curLng + dLng,
                    pos_altitude = altitude targetWp + (rnd 2 - 0.5) * 5,
                    heading = Math_atan2 dLng dLat * 180 / pi,
                    speed = orDefault (droneMaxSpeed (flight_data flight)) 50
                              * (0.5 + rnd 3 * 0.3)\<rparr>;
          distToTarget = calculateDistance (pos_lat newPos) (pos_lng newPos)
                           (lat targetWp) (lng targetWp)
      in if distToTarget < 50 then
           (if Suc idx \<ge> length wps
            then flight\<lparr>currentWaypointIndex := Some (Suc idx),
                        flight_status := Completed,
                        currentPosition := None\<rparr>
            else flight\<lparr>currentWaypointIndex := Some (Suc idx),
                        currentPosition := Some newPos\<rparr>)
         else flight\<lparr>currentWaypointIndex := Some idx, currentPosition := Some newPos\<rparr>)"

text \<open>The third block: an active flight past its end time is completed.\<close>

definition completeStep :: "int \<Rightarrow> flight \<Rightarrow> flight" where
  "completeStep nowMs flight =
     (if flight_status flight = Active \<and>
         dateLessEq (scheduledEnd (flight_data flight)) (Some nowMs)
      then flight\<lparr>flight_status := Completed, currentPosition := None\<rparr>
      else flight)"

text \<open>
  The loop body for one flight. In the second block an approved flight that is due becomes
  active and is placed at its first waypoint; when it has no waypoint, reading
  \<open>flight.waypoints[0].lat\<close> throws after the status has been assigned: \<open>Inl\<close> is the flight
  as the exception leaves it.
\<close>

definition tickFlight :: "int \<Rightarrow> (nat \<Rightarrow> real) \<Rightarrow> flight \<Rightarrow> flight + flight" where
  "tickFlight nowMs rnd flight =
     (let f1 = (if flight_status flight = Active then
                  (case waypoints (flight_data flight) of
                     Some (wp # rest) \<Rightarrow> moveActive rnd (wp # rest) flight
                   | _ \<Rightarrow> flight)
                else flight)
      in if flight_status f1 = Approved \<and>
            dateLessEq (scheduledStart (flight_data f1)) (Some nowMs)
         then
           (case waypoints (flight_data f1) of
              Some (wp # rest) \<Rightarrow>
                Inr (completeStep nowMs
                       (f1\<lparr>flight_status := Active,
                           currentPosition :=
                             Some \<lparr>pos_lat = lat wp, pos_lng = lng wp,
                                   pos_altitude = altitude wp, heading = 0, speed = 0\<rparr>,
                           currentWaypointIndex := Some 0\<rparr>))
            | _ \<Rightarrow> Inl (f1\<lparr>flight_status := Active\<rparr>))
         else Inr (completeStep nowMs f1))"

text \<open>
  \<open>for (const [id, flight] of flights)\<close>: the flights are updated in place, in map order; an
  exception ends the loop (the flag is \<open>False\<close>) and leaves the remaining flights as they were.
  \<open>rnd k\<close> gives the random numbers drawn while the flight under key \<open>k\<close> is handled.
\<close>

fun tickLoop :: "int \<Rightarrow> (string \<Rightarrow> nat \<Rightarrow> real) \<Rightarrow> registry \<Rightarrow> registry \<times> bool" where
  "tickLoop nowMs rnd [] = ([], True)"
| "tickLoop nowMs rnd ((k, flight) # rest) =
     (case tickFlight nowMs (rnd k) flight of
        Inl flight' \<Rightarrow> ((k, flight') # rest, False)
      | Inr flight' \<Rightarrow>
          (case tickLoop nowMs rnd rest of
             (rest', ok) \<Rightarrow> ((k, flight') # rest', ok)))"

definition tick :: "int \<Rightarrow> (string \<Rightarrow> nat \<Rightarrow> real) \<Rightarrow> registry \<Rightarrow> registry" where
  "tick nowMs rnd reg = fst (tickLoop nowMs rnd reg)"

section \<open>Notions used in the statements\<close>

definition terminal :: "status \<Rightarrow> bool" where
  "terminal s = (s = Rejected \<or> s = Completed \<or> s = Cancelled)"

definition live :: "status \<Rightarrow> bool" where
  "live s = (s = Pending \<or> s = Approved \<or> s = Active)"

text \<open>The half-open intersection test of two time windows.\<close>

definition windowsOverlap :: "flightData \<Rightarrow> flightData \<Rightarrow> bool" where
  "windowsOverlap a b =
     (dateLess (scheduledStart a) (scheduledEnd b) \<and> dateLess (scheduledStart b) (scheduledEnd a))"



text \<open>
  The closed form of the points \<open>generatePathSamples\<close> puts between two consecutive
  waypoints: \<open>n\<close> points at the fractions \<open>j / (n + 1)\<close>, where \<open>n\<close> is the segment length
  divided by the spacing, rounded down.
\<close>

definition interiorPoints :: "waypoint \<Rightarrow> waypoint \<Rightarrow> nat \<Rightarrow> point list" where
  "interiorPoints wp1 wp2 n =
     map (\<lambda>j. \<lparr>lat = lat wp1 + real j / real (n + 1) * (lat wp2 - lat wp1),
                lng = lng wp1 + real j / real (n + 1) * (lng wp2 - lng wp1)\<rparr>) [1..<n + 1]"

definition floorCount :: "waypoint \<Rightarrow> waypoint \<Rightarrow> real \<Rightarrow> nat" where
  "floorCount wp1 wp2 spacing =
     nat \<lfloor>getDistance (lat wp1) (lng wp1) (lat wp2) (lng wp2) / spacing\<rfloor>"

text \<open>The conditions under which the single steps of the validation leave \<open>isValid\<close> true.\<close>

definition borderOk :: "environment \<Rightarrow> flightData \<Rightarrow> bool" where
  "borderOk env fd =
     (case waypoints fd of
        Some (wp # rest) \<Rightarrow> list_all (\<lambda>wp. isWithinKosovo env (lat wp) (lng wp)) (wp # rest)
      | _ \<Rightarrow> True)"

definition areaOk :: "environment \<Rightarrow> flightData \<Rightarrow> bool" where
  "areaOk env fd =
     (case operationArea fd of
        None \<Rightarrow> True
      | Some area \<Rightarrow> (case areaCenter area of
                        None \<Rightarrow> True
                      | Some c \<Rightarrow> isWithinKosovo env (lat c) (lng c)))"

definition altitudeOk :: "environment \<Rightarrow> flightData \<Rightarrow> bool" where
  "altitudeOk env fd =
     (case maxAltitude fd of None \<Rightarrow> True | Some a \<Rightarrow> \<not> a > maxAltitudeAGL env)"

definition zoneOk :: "environment \<Rightarrow> flightData \<Rightarrow> bool" where
  "zoneOk env fd = (\<not> list_ex (\<lambda>v. v = SevError) (zoneViolations env fd))"

definition timeOk :: "environment \<Rightarrow> flightData \<Rightarrow> bool" where
  "timeOk env fd = (\<not> dateLess (scheduledStart fd) (Some (now env)))"











section \<open>Concrete flights used in the worked examples\<close>

text \<open>
  A flight along waypoints, with its window in milliseconds and its maximum altitude, and a
  flight that carries both a circular operation area and waypoints.
\<close>

definition waypointFlight :: "waypoint list \<Rightarrow> int \<Rightarrow> int \<Rightarrow> real option \<Rightarrow> flightData" where
  "waypointFlight wps start end alt =
     \<lparr>waypoints = Some wps, operationArea = None,
      scheduledStart = Some start, scheduledEnd = Some end,
      maxAltitude = alt, droneMaxSpeed = None\<rparr>"


text \<open>
  The waypoint (42.60, 20.90) and the point \<open>d\<close> metres due north of it (on the sphere of
  radius 6371000 m that the distance formula uses).
\<close>

definition wpA :: waypoint where
  "wpA = \<lparr>lat = 42.60, lng = 20.90, altitude = 100\<rparr>"

definition wpNorth :: "real \<Rightarrow> waypoint" where
  "wpNorth d = \<lparr>lat = 42.60 + d * 180 / (6371000 * pi), lng = 20.90, altitude = 100\<rparr>"

text \<open>
  Modelled from the spec: the data module with \<open>isWithinKosovo\<close>, \<open>checkRestrictedZone\<close>
  and \<open>KCAA_REGULATIONS\<close> is missing from the sources. In this configuration the border
  test is the bounding box that the map client falls back to, no point lies in a restricted
  zone, and the ceiling is the 120 m that the specification names as the regulatory ceiling
  (the README gives the same maximum altitude, and the Flight schema caps \<open>maxAltitude\<close> at
  120). The clock stands at midnight before the flights; times are milliseconds of that
  day, so 10:00 is 36000000.
\<close>

definition exampleEnv :: environment where
  "exampleEnv =
     \<lparr>isWithinKosovo = isPointInKosovo None,
      checkRestrictedZone = (\<lambda>plat plng alt. []),
      maxAltitudeAGL = 120,
      now = 0\<rparr>"

text \<open>Flight A: window [10:00, 10:30), 100 m. Flight B: window [10:15, 10:45), 150 m north.\<close>

definition requestA :: request where
  "requestA =
     \<lparr>req_id = ''flight_1'', req_flightNumber = ''KS-A'', req_userId = ''pilot'',
      req_body = waypointFlight [wpA] 36000000 37800000 (Some 100)\<rparr>"

definition requestB :: "real \<Rightarrow> request" where
  "requestB alt =
     \<lparr>req_id = ''flight_2'', req_flightNumber = ''KS-B'', req_userId = ''pilot'',
      req_body = waypointFlight [wpNorth 150] 36900000 38700000 (Some alt)\<rparr>"


text \<open>A stored flight with a given status.\<close>

definition storedFlight :: "string \<Rightarrow> flightData \<Rightarrow> status \<Rightarrow> flight" where
  "storedFlight k fd st =
     \<lparr>flight_id = k, flightNumber = ''KS-X'', userId = ''pilot'', flight_data = fd,
      flight_status = st, flight_validation = None,
      currentPosition = None, currentWaypointIndex = None\<rparr>"

text \<open>Flight B at 110 m, stored as rejected.\<close>

definition rejectedB :: flight where
  "rejectedB = storedFlight ''flight_2'' (req_body (requestB 110)) Rejected"


text \<open>
  Flight A as submitting it to the empty registry stores it, and the registry after that
  submission.
\<close>

definition storedA :: flight where
  "storedA = snd (postFlight exampleEnv [] requestA)"

definition registryA :: registry where
  "registryA = fst (postFlight exampleEnv [] requestA)"




section \<open>The border polygon\<close>

text \<open>
  The ray-casting loop toggles \<open>inside\<close> once for every edge that crosses the ray, so its
  result is the parity of the number of crossing edges.
\<close>


lemma rayLoop_parity:
  "i \<le> length coords \<Longrightarrow>
   rayLoop coords plat plng i j inside =
     (inside \<noteq> odd (length (filter (\<lambda>(p, q). crossing plat plng p q)
                          (zip (drop i coords) (coords ! j # drop i coords)))))"
proof (induction coords plat plng i j inside rule: rayLoop.induct)
  case (1 coords plat plng i j inside)
  show ?case
  proof (cases "i < length coords")
    case True
    then have d: "drop i coords = coords ! i # drop (Suc i) coords"
      by (simp add: Cons_nth_drop_Suc)
    from True have "Suc i \<le> length coords" by simp
    with 1 True have ih: "rayLoop coords plat plng (Suc i) i
             (if crossing plat plng (coords ! i) (coords ! j) then \<not> inside else inside) =
       ((if crossing plat plng (coords ! i) (coords ! j) then \<not> inside else inside) \<noteq>
          odd (length (filter (\<lambda>(p, q). crossing plat plng p q)
                 (zip (drop (Suc i) coords) (coords ! i # drop (Suc i) coords)))))"
      by blast
    show ?thesis
      by (subst rayLoop.simps) (use True ih d in auto)
  next
    case False
    with 1 show ?thesis by (subst rayLoop.simps) simp
  qed
qed


lemma zip_snoc_shift:
  "zip (xs @ [a]) (y # xs @ [b]) = zip xs (y # xs) @ [(a, last (y # xs))]"
  by (induction xs arbitrary: y) auto

lemma ringEdges_rotate1:
  "length (filter P (ringEdges (rotate1 cs))) = length (filter P (ringEdges cs))"
proof (cases cs)
  case Nil
  then show ?thesis by (simp add: ringEdges_def)
next
  case (Cons x xs)
  have "ringEdges (rotate1 cs) = zip xs (x # xs) @ [(x, last (x # xs))]"
    using zip_snoc_shift [of xs x x x] by (simp add: ringEdges_def Cons)
  moreover have "ringEdges cs = (x, last (x # xs)) # zip xs (x # xs)"
    by (simp add: ringEdges_def Cons)
  ultimately show ?thesis by simp
qed

lemma ringEdges_rotate:
  "length (filter P (ringEdges (rotate k cs))) = length (filter P (ringEdges cs))"
  by (induction k) (simp_all add: ringEdges_rotate1)

lemma isPointInKosovo_ring:
  "cs \<noteq> [] \<Longrightarrow> isPointInKosovo (Some cs) plat plng =
     odd (length (filter (\<lambda>(p, q). crossing plat plng p q) (ringEdges cs)))"
  by (simp add: isPointInKosovo_def rayLoop_parity ringEdges_def last_conv_nth)

lemma isPointInKosovo_rotate:
  "isPointInKosovo (map_option (rotate k) border) plat plng = isPointInKosovo border plat plng"
proof (cases border)
  case None
  then show ?thesis by simp
next
  case (Some cs)
  show ?thesis
  proof (cases "cs = []")
    case True
    with Some show ?thesis by simp
  next
    case False
    then have "rotate k cs \<noteq> []" by simp
    with False Some show ?thesis
      by (simp add: isPointInKosovo_ring ringEdges_rotate)
  qed
qed


lemma tri_in: "isPointInKosovo (Some [(0, 0), (0, 10), (10, 0)]) 1 1"
  by (simp add: isPointInKosovo_ring ringEdges_def crossing_def)

lemma tri_out: "\<not> isPointInKosovo (Some [(0, 0), (0, 10), (10, 0)]) 20 20"
  by (simp add: isPointInKosovo_ring ringEdges_def crossing_def)

text \<open>
  C9. For every point and every ring, the ray-casting inside test gives the same result when
  the vertex list is rotated to start from any other vertex; and for the triangle with
  vertices (0,0), (0,10), (10,0) the test is true at (1,1) and false at (20,20).
\<close>

theorem isPointInKosovo_rotation_invariant:
  "isPointInKosovo (map_option (rotate k) border) plat plng = isPointInKosovo border plat plng \<and>
   isPointInKosovo (Some [(0, 0), (0, 10), (10, 0)]) 1 1 \<and>
   \<not> isPointInKosovo (Some [(0, 0), (0, 10), (10, 0)]) 20 20"
  by (intro conjI isPointInKosovo_rotate tri_in tri_out)

section \<open>Restricted areas\<close>







section \<open>Trajectories\<close>





section \<open>Distances\<close>

text \<open>
  Two points on the same meridian: the distance formula gives the earth radius times the
  latitude difference in radians.
\<close>

lemma Math_atan2_sin_cos:
  assumes "0 \<le> y" "y \<le> pi / 2"
  shows "Math_atan2 (sin y) (cos y) = y"
proof (cases "y = pi / 2")
  case True
  show ?thesis unfolding True by (simp add: Math_atan2_def)
next
  case False
  with assms have lt: "y < pi / 2" by simp
  from assms(1) have "- (pi / 2) < y" using pi_gt_zero by linarith
  with lt have c: "0 < cos y" by (intro cos_gt_zero_pi) auto
  have "arctan (sin y / cos y) = y"
    using arctan_tan [of y] lt \<open>- (pi / 2) < y\<close> by (simp add: tan_def)
  with c show ?thesis by (simp add: Math_atan2_def)
qed

lemma calculateDistance_same_lng:
  assumes "\<bar>lat2 - lat1\<bar> \<le> 180"
  shows "calculateDistance lat1 l lat2 l = 6371000 * (\<bar>lat2 - lat1\<bar> * pi / 180)"
proof -
  define x where "x = (lat2 - lat1) * pi / 180 / 2"
  define y where "y = \<bar>x\<bar>"
  have ax: "y = \<bar>lat2 - lat1\<bar> * pi / 360"
    unfolding y_def x_def by (simp add: abs_mult)
  have y0: "0 \<le> y" unfolding y_def by simp
  have "\<bar>lat2 - lat1\<bar> * pi \<le> 180 * pi" using assms by simp
  then have y1: "y \<le> pi / 2" unfolding ax by simp
  have a: "sin x * sin x = sin y * sin y"
    unfolding y_def by (cases "0 \<le> x") (simp_all add: abs_if)
  have s: "sqrt (sin y * sin y) = sin y"
    using sin_ge_zero [of y] y0 y1 pi_gt_zero by (simp add: real_sqrt_abs2)
  have "1 - sin y * sin y = cos y * cos y"
    using sin_cos_squared_add3 [of y] by linarith
  moreover have "0 \<le> cos y" using y0 y1 by (intro cos_ge_zero) auto
  ultimately have c: "sqrt (1 - sin y * sin y) = cos y"
    by (simp add: real_sqrt_abs2)
  have "calculateDistance lat1 l lat2 l
          = 6371000 * (2 * Math_atan2 (sqrt (sin x * sin x)) (sqrt (1 - sin x * sin x)))"
    by (simp add: calculateDistance_def Let_def x_def)
  also have "\<dots> = 6371000 * (2 * Math_atan2 (sin y) (cos y))"
    by (simp only: a s c)
  also have "\<dots> = 6371000 * (2 * y)" using Math_atan2_sin_cos [OF y0 y1] by simp
  finally show ?thesis by (simp add: ax)
qed

lemma getDistance_north:
  assumes "0 \<le> d" "d \<le> 12000000"
  shows "getDistance (la + d * 180 / (6371000 * pi)) lo la lo = d"
proof -
  have "d * 180 / (6371000 * pi) \<le> 12000000 * 180 / (6371000 * 2)"
    using assms pi_ge_two by (intro frac_le) auto
  then have "\<bar>la - (la + d * 180 / (6371000 * pi))\<bar> \<le> 180"
    using assms by simp
  from calculateDistance_same_lng [OF this, of lo] assms show ?thesis
    by (simp add: getDistance_def)
qed


lemma getDistance_sym: "getDistance lat2 lng2 lat1 lng1 = getDistance lat1 lng1 lat2 lng2"
proof -
  define F where "F x y p q =
     6371000 * (2 * Math_atan2 (sqrt (sin x * sin x + cos p * cos q * sin y * sin y))
                               (sqrt (1 - (sin x * sin x + cos p * cos q * sin y * sin y))))"
    for x y p q :: real
  have 1: "calculateDistance a b c d
             = F ((c - a) * pi / 180 / 2) ((d - b) * pi / 180 / 2) (a * pi / 180) (c * pi / 180)"
    for a b c d
    by (simp add: calculateDistance_def Let_def F_def)
  have 2: "F (- x) (- y) q p = F x y p q" for x y p q
    by (simp add: F_def mult.commute)
  have 3: "(a - b) * pi / 180 / 2 = - ((b - a) * pi / 180 / 2)" for a b :: real
    by (simp add: field_simps)
  have "calculateDistance lat2 lng2 lat1 lng1
          = F (- ((lat2 - lat1) * pi / 180 / 2)) (- ((lng2 - lng1) * pi / 180 / 2))
              (lat2 * pi / 180) (lat1 * pi / 180)"
    using 1 [of lat2 lng2 lat1 lng1] 3 [of lat1 lat2] 3 [of lng1 lng2] by presburger
  also have "\<dots> = calculateDistance lat1 lng1 lat2 lng2"
    using 1 [of lat1 lng1 lat2 lng2] 2 by presburger
  finally show ?thesis by (simp only: getDistance_def)
qed

lemma interiorSamples_map:
  "interiorSamples wp1 wp2 n j =
     map (\<lambda>k. \<lparr>lat = lat wp1 + real k / real (n + 1) * (lat wp2 - lat wp1),
                lng = lng wp1 + real k / real (n + 1) * (lng wp2 - lng wp1)\<rparr>) [j..<Suc n]"
proof (induction wp1 wp2 n j rule: interiorSamples.induct)
  case (1 wp1 wp2 numSamples j)
  show ?case
  proof (cases "j \<le> numSamples")
    case True
    then have u: "[j..<Suc numSamples] = j # [Suc j..<Suc numSamples]"
      by (simp add: upt_conv_Cons)
    from True 1 show ?thesis
      by (subst interiorSamples.simps) (simp add: u Let_def del: upt_Suc)
  next
    case False
    then show ?thesis by (subst interiorSamples.simps) simp
  qed
qed



lemma segmentSamples_concat:
  "segmentSamples sd (wp # rest) =
     concat (map (\<lambda>(p1, p2). interiorPoints p1 p2 (floorCount p1 p2 sd) @ [point.truncate p2])
                 (zip (wp # rest) rest))"
  by (induction rest arbitrary: wp)
     (simp_all add: Let_def interiorSamples_map interiorPoints_def floorCount_def del: upt_Suc)

section \<open>Path samples\<close>

text \<open>
  C5, as the code has it. For every pair of consecutive waypoints p1, p2 the sampler
  produces, after p1 and before p2 (both are in the output), exactly
  floor(segmentLength / spacing) interior points, by linear interpolation of latitude and
  longitude at the fractions j / (n + 1); spacing is 50 m and segmentLength the haversine
  distance from p1 to p2.
\<close>

theorem generatePathSamples_floor:
  "generatePathSamples (Some (wp # rest)) 50 =
     point.truncate wp #
     concat (map (\<lambda>(p1, p2). interiorPoints p1 p2 (floorCount p1 p2 50) @ [point.truncate p2])
                 (zip (wp # rest) rest)) \<and>
   length (interiorPoints p1 p2 (floorCount p1 p2 50)) =
     nat \<lfloor>getDistance (lat p1) (lng p1) (lat p2) (lng p2) / 50\<rfloor>"
  by (simp add: generatePathSamples_def segmentSamples_concat interiorPoints_def floorCount_def
           del: upt_Suc)

lemma getDistance_wpNorth:
  assumes "0 \<le> d" "d \<le> 12000000"
  shows "getDistance (lat (wpNorth d)) (lng (wpNorth d)) (lat wpA) (lng wpA) = d"
    and "getDistance (lat wpA) (lng wpA) (lat (wpNorth d)) (lng (wpNorth d)) = d"
  using getDistance_north [OF assms, of "42.60" "20.90"]
  by (simp_all add: wpNorth_def wpA_def getDistance_sym)

text \<open>
  The count is not the ceiling: for two waypoints 75 m apart the output has three points,
  that is one interior point, while ceil(75 / 50) is 2.
\<close>

theorem generatePathSamples_ceil_counterexample:
  "getDistance (lat wpA) (lng wpA) (lat (wpNorth 75)) (lng (wpNorth 75)) = 75 \<and>
   length (generatePathSamples (Some [wpA, wpNorth 75]) 50) = 3 \<and>
   nat \<lceil>(75 :: real) / 50\<rceil> = 2"
proof -
  have d: "getDistance (lat wpA) (lng wpA) (lat (wpNorth 75)) (lng (wpNorth 75)) = 75"
    by (rule getDistance_wpNorth) simp_all
  have f: "nat \<lfloor>(75::real) / 50\<rfloor> = 1" by (simp add: floor_eq_iff)
  have c: "nat \<lceil>(75::real) / 50\<rceil> = 2" by (simp add: ceiling_eq_iff)
  have "length (generatePathSamples (Some [wpA, wpNorth 75]) 50) = 3"
    by (simp add: generatePathSamples_def Let_def d f interiorSamples_map)
  with d c show ?thesis by simp
qed

section \<open>Vertical separation\<close>

lemma orDefault_simps:
  "orDefault None d = d" "orDefault (Some 0) d = d" "v \<noteq> 0 \<Longrightarrow> orDefault (Some v) d = v"
  by (simp_all add: orDefault_def)

text \<open>
  C10, as the code has it. In the vertical-separation test a flight with no maxAltitude
  (candidate or stored) counts as flying at 100 m: two flights that both omit maxAltitude
  always overlap vertically, and a flight that omits it never overlaps vertically with one
  whose maxAltitude is not 0 and differs from 100 by 30 m or more. A maxAltitude of 0 is
  read as absent too, so a flight at 0 does overlap with one that omits maxAltitude.
\<close>

theorem altitudeOverlap_default:
  "(maxAltitude a = None \<longrightarrow> orDefault (maxAltitude a) 100 = 100) \<and>
   (maxAltitude a = None \<and> maxAltitude b = None \<longrightarrow> altitudeOverlap a b) \<and>
   (maxAltitude a = None \<and> maxAltitude b = Some m \<and> m \<noteq> 0 \<and> \<bar>m - 100\<bar> \<ge> 30
      \<longrightarrow> \<not> altitudeOverlap a b \<and> \<not> altitudeOverlap b a) \<and>
   (maxAltitude a = None \<and> maxAltitude b = Some 0 \<longrightarrow> altitudeOverlap a b \<and> altitudeOverlap b a)"
  by (auto simp: altitudeOverlap_def orDefault_def)

theorem altitudeOverlap_default_witness:
  "maxAltitude (waypointFlight [wpA] 0 1 None) = None \<and>
   orDefault (maxAltitude (waypointFlight [wpA] 0 1 None)) 100 = 100 \<and>
   altitudeOverlap (waypointFlight [wpA] 0 1 None) (waypointFlight [wpA] 0 1 None) \<and>
   maxAltitude (waypointFlight [wpA] 0 1 (Some 140)) = Some 140 \<and>
   (140 :: real) \<noteq> 0 \<and> \<bar>(140 :: real) - 100\<bar> \<ge> 30 \<and>
   \<not> altitudeOverlap (waypointFlight [wpA] 0 1 None) (waypointFlight [wpA] 0 1 (Some 140)) \<and>
   \<not> altitudeOverlap (waypointFlight [wpA] 0 1 (Some 140)) (waypointFlight [wpA] 0 1 None) \<and>
   maxAltitude (waypointFlight [wpA] 0 1 (Some 0)) = Some 0 \<and>
   altitudeOverlap (waypointFlight [wpA] 0 1 None) (waypointFlight [wpA] 0 1 (Some 0))"
proof -
  have n: "maxAltitude (waypointFlight [wpA] 0 1 None) = None"
    and s: "maxAltitude (waypointFlight [wpA] 0 1 (Some 140)) = Some 140"
    and z: "maxAltitude (waypointFlight [wpA] 0 1 (Some 0)) = Some 0"
    by (simp_all add: waypointFlight_def)
  have m: "(140 :: real) \<noteq> 0" "\<bar>(140 :: real) - 100\<bar> \<ge> 30" by simp_all
  from n s z m
    altitudeOverlap_default [of "waypointFlight [wpA] 0 1 None" "waypointFlight [wpA] 0 1 None" 140]
    altitudeOverlap_default [of "waypointFlight [wpA] 0 1 None" "waypointFlight [wpA] 0 1 (Some 140)" 140]
    altitudeOverlap_default [of "waypointFlight [wpA] 0 1 None" "waypointFlight [wpA] 0 1 (Some 0)" 140]
  show ?thesis by blast
qed

text \<open>
  As stated for every maxAltitude that differs from 100 by 30 m or more, the claim fails at
  maxAltitude 0.
\<close>

theorem altitudeOverlap_zero_counterexample:
  "maxAltitude (waypointFlight [wpA] 0 1 None) = None \<and>
   maxAltitude (waypointFlight [wpA] 0 1 (Some 0)) = Some 0 \<and>
   \<bar>(0 :: real) - 100\<bar> \<ge> 30 \<and>
   altitudeOverlap (waypointFlight [wpA] 0 1 None) (waypointFlight [wpA] 0 1 (Some 0))"
  by (simp add: waypointFlight_def altitudeOverlap_def orDefault_def)

section \<open>Conflict candidates\<close>

text \<open>
  The in-memory filter keeps every flight whose status is none of cancelled, completed and
  rejected; the database query keeps the flights whose status is pending, approved or
  active. Both use the half-open window test.
\<close>

lemma inMemoryFilter_set:
  "set (inMemoryFilter reg newFlight None) =
     {f \<in> set (mapValues reg). flight_status f \<notin> {Cancelled, Completed, Rejected} \<and>
                                windowsOverlap newFlight (flight_data f)}"
  by (auto simp: inMemoryFilter_def windowsOverlap_def)

lemma mongoQuery_set:
  "set (mongoQuery collection newFlight None) =
     {f \<in> set collection. flight_status f \<in> {Pending, Approved, Active} \<and>
                           windowsOverlap newFlight (flight_data f)}"
  by (auto simp: mongoQuery_def windowsOverlap_def)

text \<open>
  C4. The conflict check is to consider exactly the stored flights whose status is pending,
  approved or active (rejected, completed and cancelled flights are left out) and whose
  window overlaps the candidate's under the half-open test; windows that only touch at an
  endpoint do not overlap. The database query does so. The in-memory filter considers the
  flights whose status is none of rejected, completed and cancelled: with the database not
  connected, a stored flight with status expired and an overlapping window is a candidate,
  while the database query leaves the same flight out.
\<close>

theorem existingFlights_candidates:
  "set (existingFlights (Some collection) reg newFlight None) =
     {f \<in> set collection. live (flight_status f) \<and> windowsOverlap newFlight (flight_data f)} \<and>
   set (existingFlights None reg newFlight None) =
     {f \<in> set (mapValues reg). \<not> terminal (flight_status f) \<and>
                                windowsOverlap newFlight (flight_data f)} \<and>
   \<not> windowsOverlap (waypointFlight wps s e alt) (waypointFlight wps' s' s alt') \<and>
   \<not> windowsOverlap (waypointFlight wps s e alt) (waypointFlight wps' e e' alt') \<and>
   existingFlights None
     [(''flight_1'', storedFlight ''flight_1'' (req_body requestA) Expired)]
     (req_body (requestB 110)) None
     = [storedFlight ''flight_1'' (req_body requestA) Expired] \<and>
   existingFlights (Some [storedFlight ''flight_1'' (req_body requestA) Expired]) []
     (req_body (requestB 110)) None = []"
proof -
  have 1: "set (existingFlights (Some collection) reg newFlight None) =
     {f \<in> set collection. live (flight_status f) \<and> windowsOverlap newFlight (flight_data f)}"
    using mongoQuery_set [of collection newFlight]
    by (auto simp: existingFlights_def live_def)
  have 2: "set (existingFlights None reg newFlight None) =
     {f \<in> set (mapValues reg). \<not> terminal (flight_status f) \<and>
                                windowsOverlap newFlight (flight_data f)}"
    using inMemoryFilter_set [of reg newFlight]
    by (auto simp: existingFlights_def terminal_def)
  have 3: "\<not> windowsOverlap (waypointFlight wps s e alt) (waypointFlight wps' s' s alt')"
          "\<not> windowsOverlap (waypointFlight wps s e alt) (waypointFlight wps' e e' alt')"
    by (simp_all add: windowsOverlap_def waypointFlight_def dateLess_def)
  have 4: "existingFlights None
     [(''flight_1'', storedFlight ''flight_1'' (req_body requestA) Expired)]
     (req_body (requestB 110)) None
     = [storedFlight ''flight_1'' (req_body requestA) Expired] \<and>
   existingFlights (Some [storedFlight ''flight_1'' (req_body requestA) Expired]) []
     (req_body (requestB 110)) None = []"
    by (simp add: existingFlights_def inMemoryFilter_def mongoQuery_def mapValues_def
        storedFlight_def requestA_def requestB_def waypointFlight_def dateLess_def)
  from 1 2 3 4 show ?thesis by blast
qed

section \<open>Terminal statuses\<close>

lemma mapGet_mapSet:
  "mapGet (mapSet k v reg) k' = (if k' = k then Some v else mapGet reg k')"
  by (induction reg) (auto simp: mapGet_def)

lemma tickFlight_terminal:
  "terminal (flight_status f) \<Longrightarrow> tickFlight nowMs rnd f = Inr f"
  by (auto simp: tickFlight_def terminal_def completeStep_def Let_def)

lemma tickLoop_terminal:
  "map_of reg k = Some f \<Longrightarrow> terminal (flight_status f) \<Longrightarrow>
   map_of (fst (tickLoop nowMs rnd reg)) k = Some f"
proof (induction reg)
  case Nil
  then show ?case by simp
next
  case (Cons e reg)
  obtain k' g where e: "e = (k', g)" by (cases e)
  show ?case
  proof (cases "k' = k")
    case True
    with Cons.prems e have "g = f" by simp
    with Cons.prems e True show ?thesis
      by (simp add: tickFlight_terminal split: prod.split)
  next
    case False
    with Cons e show ?thesis
      by (auto split: sum.split prod.split)
  qed
qed

lemma existingFlights_live:
  "f \<in> set (existingFlights mongo reg newFlight excludeId) \<Longrightarrow> \<not> terminal (flight_status f)"
  by (auto simp: existingFlights_def inMemoryFilter_def mongoQuery_def terminal_def
           split: option.splits if_splits)

text \<open>
  C8, as the code has it. A flight that holds one of the statuses rejected, completed and
  cancelled still holds one of them after a cancellation, and is left as it is by the
  maintenance tick; while it holds such a status it is not among the conflict candidates of
  any conflict query. The status update assigns whatever status it is given.
\<close>

theorem terminal_statuses:
  "(mapGet reg k = Some f \<and> terminal (flight_status f) \<and> deleteFlight reg k' user = Some reg'
      \<longrightarrow> (\<exists>f'. mapGet reg' k = Some f' \<and> terminal (flight_status f'))) \<and>
   (mapGet reg k = Some f \<and> terminal (flight_status f)
      \<longrightarrow> mapGet (tick nowMs rnd reg) k = Some f) \<and>
   (terminal (flight_status f)
      \<longrightarrow> f \<notin> set (existingFlights mongo reg newFlight excludeId)) \<and>
   (mapGet reg k = Some f \<and> flight_id f = k
      \<longrightarrow> (\<exists>reg''. patchStatus reg k newStatus = Some reg'' \<and>
                   mapGet reg'' k = Some (f\<lparr>flight_status := newStatus\<rparr>)))"
proof (intro conjI impI)
  assume a: "mapGet reg k = Some f \<and> terminal (flight_status f) \<and>
             deleteFlight reg k' user = Some reg'"
  then obtain g where g: "mapGet reg k' = Some g" "userId g = user"
      "reg' = mapSet (flight_id g) (g\<lparr>flight_status := Cancelled\<rparr>)
                (mapSet k' (g\<lparr>flight_status := Cancelled\<rparr>) reg)"
    by (auto simp: deleteFlight_def Let_def split: option.splits if_splits)
  with a show "\<exists>f'. mapGet reg' k = Some f' \<and> terminal (flight_status f')"
    by (auto simp: mapGet_mapSet terminal_def)
next
  assume "mapGet reg k = Some f \<and> terminal (flight_status f)"
  then show "mapGet (tick nowMs rnd reg) k = Some f"
    by (simp add: mapGet_def tick_def tickLoop_terminal)
next
  assume "terminal (flight_status f)"
  then show "f \<notin> set (existingFlights mongo reg newFlight excludeId)"
    using existingFlights_live by blast
next
  assume "mapGet reg k = Some f \<and> flight_id f = k"
  then show "\<exists>reg''. patchStatus reg k newStatus = Some reg'' \<and>
                   mapGet reg'' k = Some (f\<lparr>flight_status := newStatus\<rparr>)"
    by (simp add: patchStatus_def Let_def mapGet_mapSet)
qed

theorem terminal_statuses_witness:
  "mapGet [(''flight_2'', rejectedB)] ''flight_2'' = Some rejectedB \<and>
   terminal (flight_status rejectedB) \<and>
   deleteFlight [(''flight_2'', rejectedB)] ''flight_2'' ''pilot''
     = Some [(''flight_2'', rejectedB\<lparr>flight_status := Cancelled\<rparr>)] \<and>
   (\<exists>f'. mapGet [(''flight_2'', rejectedB\<lparr>flight_status := Cancelled\<rparr>)] ''flight_2'' = Some f' \<and>
         terminal (flight_status f')) \<and>
   mapGet (tick 0 (\<lambda>k n. 0) [(''flight_2'', rejectedB)]) ''flight_2'' = Some rejectedB \<and>
   rejectedB \<notin> set (existingFlights None [(''flight_2'', rejectedB)] (req_body requestA) None) \<and>
   flight_id rejectedB = ''flight_2'' \<and>
   (\<exists>reg''. patchStatus [(''flight_2'', rejectedB)] ''flight_2'' Approved = Some reg'' \<and>
           mapGet reg'' ''flight_2'' = Some (rejectedB\<lparr>flight_status := Approved\<rparr>))"
proof -
  have g: "mapGet [(''flight_2'', rejectedB)] ''flight_2'' = Some rejectedB"
    by (simp add: mapGet_def)
  have t: "terminal (flight_status rejectedB)"
    by (simp add: rejectedB_def storedFlight_def terminal_def)
  have i: "flight_id rejectedB = ''flight_2''"
    by (simp add: rejectedB_def storedFlight_def)
  have d: "deleteFlight [(''flight_2'', rejectedB)] ''flight_2'' ''pilot''
             = Some [(''flight_2'', rejectedB\<lparr>flight_status := Cancelled\<rparr>)]"
    by (simp add: deleteFlight_def mapGet_def Let_def rejectedB_def storedFlight_def)
  from g t i d
    terminal_statuses [of "[(''flight_2'', rejectedB)]" "''flight_2''" rejectedB "''flight_2''"
      "''pilot''" "[(''flight_2'', rejectedB\<lparr>flight_status := Cancelled\<rparr>)]" 0 "\<lambda>k n. 0"
      None "req_body requestA" None Approved]
  show ?thesis by blast
qed

text \<open>
  The status update moves a rejected flight to approved, and the flight is then a conflict
  candidate again.
\<close>

theorem patchStatus_revives_counterexample:
  "terminal (flight_status rejectedB) \<and>
   patchStatus [(''flight_2'', rejectedB)] ''flight_2'' Approved
     = Some [(''flight_2'', rejectedB\<lparr>flight_status := Approved\<rparr>)] \<and>
   \<not> terminal (flight_status (rejectedB\<lparr>flight_status := Approved\<rparr>)) \<and>
   existingFlights None [(''flight_2'', rejectedB\<lparr>flight_status := Approved\<rparr>)]
     (req_body requestA) None = [rejectedB\<lparr>flight_status := Approved\<rparr>]"
  by (simp add: patchStatus_def mapGet_def Let_def rejectedB_def storedFlight_def terminal_def
        existingFlights_def inMemoryFilter_def mapValues_def requestA_def requestB_def
        waypointFlight_def dateLess_def)

section \<open>The validation report\<close>

text \<open>
  Every step of \<open>validateFlightRequest\<close> appends its checks to the ones before and leaves
  \<open>isValid\<close> true only when its own condition holds.
\<close>

lemma borderLoop_fst:
  "\<exists>new. fst (borderLoop env wps (cs, valid)) = cs @ new \<and>
         (\<forall>c\<in>set new. name c = border_check \<and> severity c = SevError \<and> \<not> passed c) \<and>
         (snd (borderLoop env wps (cs, valid)) \<longleftrightarrow>
            valid \<and> list_all (\<lambda>wp. isWithinKosovo env (lat wp) (lng wp)) wps) \<and>
         (new = [] \<longleftrightarrow> list_all (\<lambda>wp. isWithinKosovo env (lat wp) (lng wp)) wps)"
proof (induction wps arbitrary: cs valid)
  case Nil
  then show ?case by simp
next
  case (Cons wp wps)
  show ?case
  proof (cases "isWithinKosovo env (lat wp) (lng wp)")
    case True
    with Cons [of cs valid] show ?thesis by simp
  next
    case False
    from Cons [of "cs @ [mkCheck border_check False SevError]" False]
    obtain new where n: "fst (borderLoop env wps (cs @ [mkCheck border_check False SevError], False))
              = (cs @ [mkCheck border_check False SevError]) @ new"
        "\<forall>c\<in>set new. name c = border_check \<and> severity c = SevError \<and> \<not> passed c"
        "\<not> snd (borderLoop env wps (cs @ [mkCheck border_check False SevError], False))"
      by auto
    with False show ?thesis
      by (intro exI [of _ "mkCheck border_check False SevError # new"]) (simp add: mkCheck_def)
  qed
qed


lemma borderStep_spec:
  "\<exists>new. borderStep env fd ([], True) =
           (new, case waypoints fd of
                   Some (wp # rest) \<Rightarrow>
                     list_all (\<lambda>wp. isWithinKosovo env (lat wp) (lng wp)) (wp # rest)
                 | _ \<Rightarrow> True) \<and>
         list_all (\<lambda>c. name c = border_check \<and> (severity c = SevError \<longrightarrow> \<not> passed c)) new \<and>
         (list_ex (\<lambda>c. severity c = SevError) new \<longleftrightarrow>
            \<not> (case waypoints fd of
                  Some (wp # rest) \<Rightarrow>
                    list_all (\<lambda>wp. isWithinKosovo env (lat wp) (lng wp)) (wp # rest)
                | _ \<Rightarrow> True)) \<and>
         (new \<noteq> [] \<longleftrightarrow> (case waypoints fd of Some (wp # rest) \<Rightarrow> True | _ \<Rightarrow> False))"
proof (cases "waypoints fd")
  case None
  then show ?thesis by (simp add: borderStep_def)
next
  case (Some wps)
  show ?thesis
  proof (cases wps)
    case Nil
    with Some show ?thesis by (simp add: borderStep_def)
  next
    case (Cons wp rest)
    from borderLoop_fst [of env "wp # rest" "[]" True]
    obtain new where n: "fst (borderLoop env (wp # rest) ([], True)) = new"
        "\<forall>c\<in>set new. name c = border_check \<and> severity c = SevError \<and> \<not> passed c"
        "snd (borderLoop env (wp # rest) ([], True)) \<longleftrightarrow>
            list_all (\<lambda>wp. isWithinKosovo env (lat wp) (lng wp)) (wp # rest)"
        "new = [] \<longleftrightarrow> list_all (\<lambda>wp. isWithinKosovo env (lat wp) (lng wp)) (wp # rest)"
      by auto
    define ok where "ok = list_all (\<lambda>wp. isWithinKosovo env (lat wp) (lng wp)) (wp # rest)"
    have bl: "borderLoop env (wp # rest) ([], True) = (new, ok)"
      using n(1,3) by (simp add: prod_eq_iff ok_def)
    show ?thesis
    proof (cases ok)
      case True
      with n(4) have "new = []" by (simp add: ok_def)
      with bl have bl': "borderLoop env (wp # rest) ([], True) = ([], ok)" by simp
      from True have okl: "list_all (\<lambda>wp. isWithinKosovo env (lat wp) (lng wp)) (wp # rest)"
        by (simp add: ok_def)
      have "borderStep env fd ([], True) = ([mkCheck border_check True SevInfo], ok)"
        by (simp add: borderStep_def Some Cons bl' del: borderLoop.simps)
      with True okl Some Cons show ?thesis
        by (simp add: mkCheck_def)
    next
      case False
      with n(4) obtain c cs where "new = c # cs" by (cases new) (auto simp: ok_def)
      from False have okl: "\<not> list_all (\<lambda>wp. isWithinKosovo env (lat wp) (lng wp)) (wp # rest)"
        by (simp add: ok_def)
      from n(2) \<open>new = c # cs\<close> have "list_ex (\<lambda>c. name c = border_check \<and> \<not> passed c) new"
        by (auto simp: list_ex_iff)
      then have "borderStep env fd ([], True) = (new, ok)"
        by (simp add: borderStep_def Some Cons bl del: borderLoop.simps)
      moreover have "list_all (\<lambda>c. name c = border_check \<and> (severity c = SevError \<longrightarrow> \<not> passed c)) new"
        using n(2) by (auto simp: list_all_iff)
      moreover have "list_ex (\<lambda>c. severity c = SevError) new"
        using n(2) \<open>new = c # cs\<close> by (auto simp: list_ex_iff)
      ultimately show ?thesis using False okl Some Cons \<open>new = c # cs\<close>
        by simp
    qed
  qed
qed

lemma areaStep_spec:
  "\<exists>new. areaStep env fd (cs, valid) =
           (cs @ new, valid \<and>
              (case operationArea fd of
                 None \<Rightarrow> True
               | Some area \<Rightarrow> (case areaCenter area of
                                 None \<Rightarrow> True
                               | Some c \<Rightarrow> isWithinKosovo env (lat c) (lng c)))) \<and>
         list_all (\<lambda>c. name c = area_border_check \<and> (severity c = SevError \<longrightarrow> \<not> passed c)) new \<and>
         (list_ex (\<lambda>c. severity c = SevError) new \<longleftrightarrow>
            \<not> (case operationArea fd of
                  None \<Rightarrow> True
                | Some area \<Rightarrow> (case areaCenter area of
                                  None \<Rightarrow> True
                                | Some c \<Rightarrow> isWithinKosovo env (lat c) (lng c)))) \<and>
         (new \<noteq> [] \<longleftrightarrow>
            (case operationArea fd of
               None \<Rightarrow> False
             | Some area \<Rightarrow> areaCenter area \<noteq> None))"
  by (auto simp: areaStep_def mkCheck_def split: option.splits)

lemma altitudeStep_spec:
  "\<exists>new. altitudeStep env fd (cs, valid) =
           (cs @ new, valid \<and>
              \<not> (case maxAltitude fd of None \<Rightarrow> False | Some a \<Rightarrow> a > maxAltitudeAGL env)) \<and>
         list_all (\<lambda>c. name c = altitude_check \<and> (severity c = SevError \<longrightarrow> \<not> passed c)) new \<and>
         (list_ex (\<lambda>c. severity c = SevError) new \<longleftrightarrow>
            (case maxAltitude fd of None \<Rightarrow> False | Some a \<Rightarrow> a > maxAltitudeAGL env)) \<and>
         new \<noteq> []"
  by (auto simp: altitudeStep_def mkCheck_def split: option.splits)

lemma zoneStep_spec:
  "\<exists>new. zoneStep env fd (cs, valid) =
           (cs @ new, valid \<and> \<not> list_ex (\<lambda>v. v = SevError) (zoneViolations env fd)) \<and>
         list_all (\<lambda>c. name c = zone_check \<and> (severity c = SevError \<longrightarrow> \<not> passed c)) new \<and>
         (list_ex (\<lambda>c. severity c = SevError) new \<longleftrightarrow>
            list_ex (\<lambda>v. v = SevError) (zoneViolations env fd)) \<and>
         (new \<noteq> [] \<longleftrightarrow>
            zoneViolations env fd = [] \<or> list_ex (\<lambda>v. v \<noteq> SevInfo) (zoneViolations env fd))"
proof (cases "zoneViolations env fd = []")
  case True
  then show ?thesis by (simp add: zoneStep_def mkCheck_def)
next
  case False
  define errors where "errors = filter (\<lambda>v. v = SevError) (zoneViolations env fd)"
  define warnings where "warnings = filter (\<lambda>v. v = SevWarning) (zoneViolations env fd)"
  define new where "new = map (\<lambda>v. mkCheck zone_check False SevError) errors @
                          map (\<lambda>v. mkCheck zone_check True SevWarning) warnings"
  have e: "errors = [] \<longleftrightarrow> \<not> list_ex (\<lambda>v. v = SevError) (zoneViolations env fd)"
    by (auto simp: errors_def filter_empty_conv list_ex_iff)
  have w: "warnings = [] \<longleftrightarrow> \<not> list_ex (\<lambda>v. v = SevWarning) (zoneViolations env fd)"
    by (auto simp: warnings_def filter_empty_conv list_ex_iff)
  have z: "zoneStep env fd (cs, valid) = (cs @ new, valid \<and> errors = [])"
    using False by (simp add: zoneStep_def Let_def new_def flip: errors_def warnings_def)
  have n1: "list_all (\<lambda>c. name c = zone_check \<and> (severity c = SevError \<longrightarrow> \<not> passed c)) new"
    by (auto simp: new_def list_all_iff mkCheck_def)
  have n2: "list_ex (\<lambda>c. severity c = SevError) new \<longleftrightarrow> errors \<noteq> []"
    by (cases errors) (auto simp: new_def list_ex_iff mkCheck_def)
  have n3: "new \<noteq> [] \<longleftrightarrow> errors \<noteq> [] \<or> warnings \<noteq> []"
    by (simp add: new_def)
  have n4: "list_ex (\<lambda>v. v \<noteq> SevInfo) (zoneViolations env fd) \<longleftrightarrow>
            errors \<noteq> [] \<or> warnings \<noteq> []"
    unfolding e w list_ex_iff by (metis severity.exhaust severity.distinct(1,3))
  from z n1 n2 n3 n4 e False show ?thesis by auto
qed

lemma timeStep_spec:
  "\<exists>new. timeStep env fd (cs, valid) =
           (cs @ new, valid \<and> \<not> dateLess (scheduledStart fd) (Some (now env))) \<and>
         list_all (\<lambda>c. name c = time_check \<and> (severity c = SevError \<longrightarrow> \<not> passed c)) new \<and>
         (list_ex (\<lambda>c. severity c = SevError) new \<longleftrightarrow>
            dateLess (scheduledStart fd) (Some (now env))) \<and>
         new \<noteq> []"
  by (auto simp: timeStep_def mkCheck_def)

lemma daylightStep_spec:
  "\<exists>new. daylightStep env fd (cs, valid) = (cs @ new, valid) \<and>
         list_all (\<lambda>c. name c = daylight_check \<and> severity c \<noteq> SevError) new \<and>
         new \<noteq> []"
  by (auto simp: daylightStep_def mkCheck_def)

lemma conflictStep_spec:
  "\<exists>new. conflictStep mongo reg fd (cs, valid) =
           (cs @ new, valid \<and> checkFlightConflicts mongo reg fd None = []) \<and>
         list_all (\<lambda>c. name c = traffic_conflict \<and> (severity c = SevError \<longrightarrow> \<not> passed c)) new \<and>
         (list_ex (\<lambda>c. severity c = SevError) new \<longleftrightarrow>
            checkFlightConflicts mongo reg fd None \<noteq> []) \<and>
         new \<noteq> []"
proof (cases "checkFlightConflicts mongo reg fd None")
  case Nil
  then show ?thesis by (simp add: conflictStep_def mkCheck_def)
next
  case (Cons c cs')
  then show ?thesis by (simp add: conflictStep_def Let_def list_all_iff)
qed

lemma validate_parts:
  "\<exists>b a h z t d c.
     checks (validateFlightRequest env mongo reg fd) = b @ a @ h @ z @ t @ d @ c \<and>
     isValid (validateFlightRequest env mongo reg fd) =
       (borderOk env fd \<and> areaOk env fd \<and> altitudeOk env fd \<and> zoneOk env fd \<and>
        timeOk env fd \<and> checkFlightConflicts mongo reg fd None = []) \<and>
     list_all (\<lambda>c. name c = border_check \<and> (severity c = SevError \<longrightarrow> \<not> passed c)) b \<and>
     list_all (\<lambda>c. name c = area_border_check \<and> (severity c = SevError \<longrightarrow> \<not> passed c)) a \<and>
     list_all (\<lambda>c. name c = altitude_check \<and> (severity c = SevError \<longrightarrow> \<not> passed c)) h \<and>
     list_all (\<lambda>c. name c = zone_check \<and> (severity c = SevError \<longrightarrow> \<not> passed c)) z \<and>
     list_all (\<lambda>c. name c = time_check \<and> (severity c = SevError \<longrightarrow> \<not> passed c)) t \<and>
     list_all (\<lambda>c. name c = daylight_check \<and> severity c \<noteq> SevError) d \<and>
     list_all (\<lambda>c. name c = traffic_conflict \<and> (severity c = SevError \<longrightarrow> \<not> passed c)) c \<and>
     (list_ex (\<lambda>c. severity c = SevError) b \<longleftrightarrow> \<not> borderOk env fd) \<and>
     (list_ex (\<lambda>c. severity c = SevError) a \<longleftrightarrow> \<not> areaOk env fd) \<and>
     (list_ex (\<lambda>c. severity c = SevError) h \<longleftrightarrow> \<not> altitudeOk env fd) \<and>
     (list_ex (\<lambda>c. severity c = SevError) z \<longleftrightarrow> \<not> zoneOk env fd) \<and>
     (list_ex (\<lambda>c. severity c = SevError) t \<longleftrightarrow> \<not> timeOk env fd) \<and>
     (list_ex (\<lambda>c. severity c = SevError) c \<longleftrightarrow> checkFlightConflicts mongo reg fd None \<noteq> []) \<and>
     (b \<noteq> [] \<longleftrightarrow> (case waypoints fd of Some (wp # rest) \<Rightarrow> True | _ \<Rightarrow> False)) \<and>
     (a \<noteq> [] \<longleftrightarrow> (case operationArea fd of None \<Rightarrow> False
                                           | Some area \<Rightarrow> areaCenter area \<noteq> None)) \<and>
     h \<noteq> [] \<and>
     (z \<noteq> [] \<longleftrightarrow> zoneViolations env fd = [] \<or>
                  list_ex (\<lambda>v. v \<noteq> SevInfo) (zoneViolations env fd)) \<and>
     t \<noteq> [] \<and> d \<noteq> [] \<and> c \<noteq> []"
proof -
  from borderStep_spec [of env fd] obtain b where
    b: "borderStep env fd ([], True) = (b, borderOk env fd)"
       "list_all (\<lambda>c. name c = border_check \<and> (severity c = SevError \<longrightarrow> \<not> passed c)) b"
       "list_ex (\<lambda>c. severity c = SevError) b \<longleftrightarrow> \<not> borderOk env fd"
       "b \<noteq> [] \<longleftrightarrow> (case waypoints fd of Some (wp # rest) \<Rightarrow> True | _ \<Rightarrow> False)"
    unfolding borderOk_def by blast
  from areaStep_spec [of env fd b "borderOk env fd"] obtain a where
    a: "areaStep env fd (b, borderOk env fd) = (b @ a, borderOk env fd \<and> areaOk env fd)"
       "list_all (\<lambda>c. name c = area_border_check \<and> (severity c = SevError \<longrightarrow> \<not> passed c)) a"
       "list_ex (\<lambda>c. severity c = SevError) a \<longleftrightarrow> \<not> areaOk env fd"
       "a \<noteq> [] \<longleftrightarrow> (case operationArea fd of None \<Rightarrow> False
                                           | Some area \<Rightarrow> areaCenter area \<noteq> None)"
    unfolding areaOk_def by blast
  have ao: "(\<not> (case maxAltitude fd of None \<Rightarrow> False | Some a \<Rightarrow> a > maxAltitudeAGL env))
              = altitudeOk env fd"
    by (simp add: altitudeOk_def split: option.split)
  from altitudeStep_spec [of env fd "b @ a" "borderOk env fd \<and> areaOk env fd"] obtain h where
    h: "altitudeStep env fd (b @ a, borderOk env fd \<and> areaOk env fd)
          = ((b @ a) @ h, (borderOk env fd \<and> areaOk env fd) \<and> altitudeOk env fd)"
       "list_all (\<lambda>c. name c = altitude_check \<and> (severity c = SevError \<longrightarrow> \<not> passed c)) h"
       "list_ex (\<lambda>c. severity c = SevError) h \<longleftrightarrow> \<not> altitudeOk env fd"
       "h \<noteq> []"
    unfolding ao [symmetric] by auto
  from zoneStep_spec [of env fd "(b @ a) @ h" "(borderOk env fd \<and> areaOk env fd) \<and> altitudeOk env fd"]
  obtain z where
    z: "zoneStep env fd ((b @ a) @ h, (borderOk env fd \<and> areaOk env fd) \<and> altitudeOk env fd)
          = (((b @ a) @ h) @ z,
             ((borderOk env fd \<and> areaOk env fd) \<and> altitudeOk env fd) \<and> zoneOk env fd)"
       "list_all (\<lambda>c. name c = zone_check \<and> (severity c = SevError \<longrightarrow> \<not> passed c)) z"
       "list_ex (\<lambda>c. severity c = SevError) z \<longleftrightarrow> \<not> zoneOk env fd"
       "z \<noteq> [] \<longleftrightarrow> zoneViolations env fd = [] \<or>
                  list_ex (\<lambda>v. v \<noteq> SevInfo) (zoneViolations env fd)"
    unfolding zoneOk_def by auto
  from timeStep_spec [of env fd "((b @ a) @ h) @ z"
      "((borderOk env fd \<and> areaOk env fd) \<and> altitudeOk env fd) \<and> zoneOk env fd"]
  obtain t where
    t: "timeStep env fd (((b @ a) @ h) @ z,
             ((borderOk env fd \<and> areaOk env fd) \<and> altitudeOk env fd) \<and> zoneOk env fd)
          = ((((b @ a) @ h) @ z) @ t,
             (((borderOk env fd \<and> areaOk env fd) \<and> altitudeOk env fd) \<and> zoneOk env fd) \<and>
             timeOk env fd)"
       "list_all (\<lambda>c. name c = time_check \<and> (severity c = SevError \<longrightarrow> \<not> passed c)) t"
       "list_ex (\<lambda>c. severity c = SevError) t \<longleftrightarrow> \<not> timeOk env fd"
       "t \<noteq> []"
    unfolding timeOk_def by auto
  from daylightStep_spec [of env fd "(((b @ a) @ h) @ z) @ t"
      "(((borderOk env fd \<and> areaOk env fd) \<and> altitudeOk env fd) \<and> zoneOk env fd) \<and> timeOk env fd"]
  obtain d where
    d: "daylightStep env fd ((((b @ a) @ h) @ z) @ t,
             (((borderOk env fd \<and> areaOk env fd) \<and> altitudeOk env fd) \<and> zoneOk env fd) \<and>
             timeOk env fd)
          = (((((b @ a) @ h) @ z) @ t) @ d,
             (((borderOk env fd \<and> areaOk env fd) \<and> altitudeOk env fd) \<and> zoneOk env fd) \<and>
             timeOk env fd)"
       "list_all (\<lambda>c. name c = daylight_check \<and> severity c \<noteq> SevError) d"
       "d \<noteq> []"
    by auto
  from conflictStep_spec [of mongo reg fd "((((b @ a) @ h) @ z) @ t) @ d"
      "(((borderOk env fd \<and> areaOk env fd) \<and> altitudeOk env fd) \<and> zoneOk env fd) \<and> timeOk env fd"]
  obtain c where
    c: "conflictStep mongo reg fd (((((b @ a) @ h) @ z) @ t) @ d,
             (((borderOk env fd \<and> areaOk env fd) \<and> altitudeOk env fd) \<and> zoneOk env fd) \<and>
             timeOk env fd)
          = ((((((b @ a) @ h) @ z) @ t) @ d) @ c,
             ((((borderOk env fd \<and> areaOk env fd) \<and> altitudeOk env fd) \<and> zoneOk env fd) \<and>
             timeOk env fd) \<and> checkFlightConflicts mongo reg fd None = [])"
       "list_all (\<lambda>c. name c = traffic_conflict \<and> (severity c = SevError \<longrightarrow> \<not> passed c)) c"
       "list_ex (\<lambda>c. severity c = SevError) c \<longleftrightarrow> checkFlightConflicts mongo reg fd None \<noteq> []"
       "c \<noteq> []"
    by auto
  have v: "validateFlightRequest env mongo reg fd =
             \<lparr>isValid = (((((borderOk env fd \<and> areaOk env fd) \<and> altitudeOk env fd) \<and> zoneOk env fd) \<and>
                          timeOk env fd) \<and> checkFlightConflicts mongo reg fd None = []),
              checks = (((((b @ a) @ h) @ z) @ t) @ d) @ c\<rparr>"
    by (simp only: validateFlightRequest_def b(1) a(1) h(1) z(1) t(1) d(1) c(1) prod.case)
  show ?thesis
    apply (rule exI [of _ b], rule exI [of _ a], rule exI [of _ h], rule exI [of _ z],
           rule exI [of _ t], rule exI [of _ d], rule exI [of _ c])
    using b(2-) a(2-) h(2-) z(2-) t(2-) d(2-) c(2-) by (simp add: v)
qed

lemma isValid_iff:
  "isValid (validateFlightRequest env mongo reg fd) =
     (borderOk env fd \<and> areaOk env fd \<and> altitudeOk env fd \<and> zoneOk env fd \<and>
      timeOk env fd \<and> checkFlightConflicts mongo reg fd None = [])"
  using validate_parts [of env mongo reg fd] by blast






















section \<open>Conflicts between flights\<close>

















section \<open>Flight A and flight B\<close>

lemma wpNorth_offset:
  assumes "0 \<le> d" "d \<le> 500"
  shows "42.60 \<le> lat (wpNorth d)" "lat (wpNorth d) \<le> 42.61" "lng (wpNorth d) = 20.90"
proof -
  define x where "x = d * 180 / (6371000 * pi)"
  have "x \<le> 500 * 180 / (6371000 * 2)"
    unfolding x_def using assms pi_ge_two by (intro frac_le) auto
  then have u: "x \<le> 0.01" by simp
  have z: "0 \<le> x" unfolding x_def using assms by simp
  have l: "lat (wpNorth d) = 42.60 + x" by (simp add: wpNorth_def x_def)
  from u z show "42.60 \<le> lat (wpNorth d)" "lat (wpNorth d) \<le> 42.61"
    unfolding l by simp_all
  show "lng (wpNorth d) = 20.90" by (simp add: wpNorth_def)
qed

lemma single_samples: "generatePathSamples (Some [wp]) 50 = [point.truncate wp]"
  by (simp add: generatePathSamples_def)

lemma single_bounds:
  "getFlightBounds (waypointFlight [wp] s e alt) =
     Some \<lparr>north = lat wp, south = lat wp, east = lng wp, west = lng wp\<rparr>"
  by (simp add: getFlightBounds_def waypointFlight_def)

lemma spatial_B_A:
  "checkSpatialConflict (waypointFlight [wpNorth 150] s e alt) (waypointFlight [wpA] s' e' alt')
     = Conflict 150 path_proximity"
proof -
  have o: "boundsOverlap (getFlightBounds (waypointFlight [wpNorth 150] s e alt))
             (getFlightBounds (waypointFlight [wpA] s' e' alt')) 0.005"
    using wpNorth_offset [of 150]
    by (simp add: single_bounds boundsOverlap_def wpA_def)
  have d: "getDistance (lat (wpNorth 150)) (lng (wpNorth 150)) (lat wpA) (lng wpA) = 150"
    by (rule getDistance_wpNorth) simp_all
  have m: "outerMin [point.truncate (wpNorth 150)] [point.truncate wpA] None = Some 150"
    using d by (simp add: point.truncate_def Let_def)
  show ?thesis
    unfolding checkSpatialConflict_def
    using o d by (simp add: waypointFlight_def single_samples point.truncate_def Let_def)
qed


lemma requestB_body:
  "req_body (requestB alt) = waypointFlight [wpNorth 150] 36900000 38700000 (Some alt)"
  by (simp add: requestB_def)

lemma registryA_eq: "registryA = [(''flight_1'', storedA)]"
  by (simp add: registryA_def storedA_def postFlight_def Let_def requestA_def)

lemma flightA_valid:
  "isValid (validateFlightRequest exampleEnv None [] (req_body requestA))"
  by (simp add: isValid_iff borderOk_def areaOk_def altitudeOk_def zoneOk_def timeOk_def
        zoneViolations_def zonePoints_def checkFlightConflicts_def existingFlights_def
        inMemoryFilter_def mapValues_def requestA_def waypointFlight_def wpA_def
        exampleEnv_def isPointInKosovo_def dateLess_def)

lemma storedA_fields:
  "flight_status storedA = Pending"
  "flight_data storedA = waypointFlight [wpA] 36000000 37800000 (Some 100)"
  "flight_id storedA = ''flight_1''"
  "flightNumber storedA = ''KS-A''"
  using flightA_valid by (simp_all add: storedA_def postFlight_def Let_def requestA_def)

lemma existing_B:
  "existingFlights None registryA (req_body (requestB alt)) None = [storedA]"
  by (simp add: existingFlights_def inMemoryFilter_def mapValues_def registryA_eq
        storedA_fields requestB_body waypointFlight_def dateLess_def)

lemma conflicts_B:
  "checkFlightConflicts None registryA (req_body (requestB alt)) None =
     (if \<bar>orDefault (Some alt) 100 - 100\<bar> < 30
      then [\<lparr>conflict_flightId = ''flight_1'', conflict_flightNumber = ''KS-A'',
             conflictType = path_proximity, conflict_minDistance = 150,
             conflict_scheduledStart = Some 36000000,
             conflict_scheduledEnd = Some 37800000\<rparr>]
      else [])"
proof -
  have s: "checkSpatialConflict (req_body (requestB alt)) (flight_data storedA)
             = Conflict 150 path_proximity"
    by (simp add: requestB_body storedA_fields spatial_B_A)
  have a: "altitudeOverlap (req_body (requestB alt)) (flight_data storedA)
             = (\<bar>orDefault (Some alt) 100 - 100\<bar> < 30)"
    by (simp add: altitudeOverlap_def requestB_body storedA_fields(2) waypointFlight_def
          orDefault_def)
  have r: "Math_round 150 = 150" by (simp add: Math_round_def floor_eq_iff)
  have t: "scheduledStart (flight_data storedA) = Some 36000000"
          "scheduledEnd (flight_data storedA) = Some 37800000"
    by (simp_all add: storedA_fields(2) waypointFlight_def)
  show ?thesis
    by (simp add: checkFlightConflicts_def existing_B s a r t storedA_fields(3,4))
qed

lemma validate_traffic:
  "\<exists>pre. checks (validateFlightRequest env mongo reg fd) =
     pre @ (if checkFlightConflicts mongo reg fd None \<noteq> []
            then map (\<lambda>c. \<lparr>name = traffic_conflict, passed = False, severity = SevError,
                            conflictingFlight = Some c\<rparr>)
                     (checkFlightConflicts mongo reg fd None)
            else [mkCheck traffic_conflict True SevInfo])"
proof -
  obtain cs valid where
    st: "daylightStep env fd (timeStep env fd (zoneStep env fd (altitudeStep env fd
           (areaStep env fd (borderStep env fd ([], True)))))) = (cs, valid)"
    by (cases "daylightStep env fd (timeStep env fd (zoneStep env fd (altitudeStep env fd
           (areaStep env fd (borderStep env fd ([], True))))))")
  show ?thesis
    by (rule exI [of _ cs]) (simp add: validateFlightRequest_def st conflictStep_def Let_def)
qed

lemma postFlight_status:
  "flight_status (snd (postFlight env reg req)) =
     (if isValid (validateFlightRequest env None reg (req_body req)) then Pending else Rejected)"
  by (simp add: postFlight_def Let_def)

lemma B_ok_example:
  "borderOk exampleEnv (req_body (requestB alt))" "areaOk exampleEnv (req_body (requestB alt))"
  "zoneOk exampleEnv (req_body (requestB alt))" "timeOk exampleEnv (req_body (requestB alt))"
  "altitudeOk exampleEnv (req_body (requestB alt)) = (alt \<le> 120)"
  using wpNorth_offset [of 150]
  by (simp_all add: borderOk_def areaOk_def zoneOk_def timeOk_def altitudeOk_def
        zoneViolations_def zonePoints_def requestB_body waypointFlight_def exampleEnv_def
        isPointInKosovo_def dateLess_def not_less)

text \<open>
  C2, as the code has it. Flight A (single waypoint, 100 m, window [10:00, 10:30)) is
  admitted. For flight B with window [10:15, 10:45) and a single waypoint 150 m from A's:
  at 110 m the report has a traffic_conflict check of severity error and isValid is false,
  whatever the configuration, B is stored as rejected and is never a conflict candidate; at
  140 m no conflict is reported and the traffic_conflict check passes, but with the ceiling
  of 120 m B is rejected by the altitude check; at 70 m (30 m from A, below the ceiling) no
  conflict is reported and B is admitted with status pending.
\<close>

theorem scenario_B:
  "registryA = [(''flight_1'', storedA)] \<and> flight_status storedA = Pending \<and>
   \<not> isValid (validateFlightRequest env None registryA (req_body (requestB 110))) \<and>
   list_ex (\<lambda>c. name c = traffic_conflict \<and> severity c = SevError \<and> \<not> passed c)
           (checks (validateFlightRequest env None registryA (req_body (requestB 110)))) \<and>
   flight_status (snd (postFlight env registryA (requestB 110))) = Rejected \<and>
   snd (postFlight env registryA (requestB 110))
     \<notin> set (existingFlights None (fst (postFlight env registryA (requestB 110)))
               candidate excludeId) \<and>
   checkFlightConflicts None registryA (req_body (requestB 140)) None = [] \<and>
   list_ex (\<lambda>c. name c = traffic_conflict \<and> severity c = SevInfo \<and> passed c)
           (checks (validateFlightRequest env None registryA (req_body (requestB 140)))) \<and>
   flight_status (snd (postFlight exampleEnv registryA (requestB 140))) = Rejected \<and>
   checkFlightConflicts None registryA (req_body (requestB 70)) None = [] \<and>
   flight_status (snd (postFlight exampleEnv registryA (requestB 70))) = Pending"
proof -
  have c110: "checkFlightConflicts None registryA (req_body (requestB 110)) None \<noteq> []"
    by (simp add: conflicts_B orDefault_def)
  have c140: "checkFlightConflicts None registryA (req_body (requestB 140)) None = []"
    by (simp add: conflicts_B orDefault_def)
  have c70: "checkFlightConflicts None registryA (req_body (requestB 70)) None = []"
    by (simp add: conflicts_B orDefault_def)
  have v110: "\<not> isValid (validateFlightRequest env None registryA (req_body (requestB 110)))"
    using c110 by (simp add: isValid_iff)
  then have s110: "flight_status (snd (postFlight env registryA (requestB 110))) = Rejected"
    by (simp add: postFlight_status)
  obtain pre where "checks (validateFlightRequest env None registryA (req_body (requestB 110)))
      = pre @ map (\<lambda>c. \<lparr>name = traffic_conflict, passed = False, severity = SevError,
                            conflictingFlight = Some c\<rparr>)
                  (checkFlightConflicts None registryA (req_body (requestB 110)) None)"
    using validate_traffic [of env None registryA "req_body (requestB 110)"] c110 by auto
  with c110 have t110: "list_ex (\<lambda>c. name c = traffic_conflict \<and> severity c = SevError \<and> \<not> passed c)
           (checks (validateFlightRequest env None registryA (req_body (requestB 110))))"
    by (cases "checkFlightConflicts None registryA (req_body (requestB 110)) None") auto
  have n110: "snd (postFlight env registryA (requestB 110))
     \<notin> set (existingFlights None (fst (postFlight env registryA (requestB 110)))
               candidate excludeId)"
    using existingFlights_live [of "snd (postFlight env registryA (requestB 110))"] s110
    by (auto simp: terminal_def)
  obtain pre' where "checks (validateFlightRequest env None registryA (req_body (requestB 140)))
      = pre' @ [mkCheck traffic_conflict True SevInfo]"
    using validate_traffic [of env None registryA "req_body (requestB 140)"] c140 by auto
  then have t140: "list_ex (\<lambda>c. name c = traffic_conflict \<and> severity c = SevInfo \<and> passed c)
           (checks (validateFlightRequest env None registryA (req_body (requestB 140))))"
    by (simp add: mkCheck_def)
  have s140: "flight_status (snd (postFlight exampleEnv registryA (requestB 140))) = Rejected"
    by (simp add: postFlight_status isValid_iff B_ok_example)
  have s70: "flight_status (snd (postFlight exampleEnv registryA (requestB 70))) = Pending"
    by (simp add: postFlight_status isValid_iff B_ok_example c70)
  from registryA_eq storedA_fields(1) v110 t110 s110 n110 c140 t140 s140 c70 s70
  show ?thesis by blast
qed

text \<open>
  Flight B at 140 m is not admitted as pending: 140 m exceeds the ceiling of 120 m.
\<close>

theorem scenario_B140_counterexample:
  "maxAltitude (req_body (requestB 140)) = Some 140 \<and>
   maxAltitudeAGL exampleEnv = 120 \<and>
   checkFlightConflicts None registryA (req_body (requestB 140)) None = [] \<and>
   flight_status (snd (postFlight exampleEnv registryA (requestB 140))) = Rejected"
proof -
  have "checkFlightConflicts None registryA (req_body (requestB 140)) None = []"
    by (simp add: conflicts_B orDefault_def)
  moreover have "flight_status (snd (postFlight exampleEnv registryA (requestB 140))) = Rejected"
    by (simp add: postFlight_status isValid_iff B_ok_example)
  ultimately show ?thesis
    by (simp add: requestB_body waypointFlight_def exampleEnv_def)
qed

section \<open>Conflict freedom of the registry\<close>


















end
